theory Spec2Isabelle
  imports Main "HOL-Library.Sublist"
begin

section \<open>Errors\<close>

text \<open>
  A Go \<^verbatim>\<open>error\<close> is a value. \<^verbatim>\<open>fmt.Errorf("template not found: %s", p)\<close> builds a
  plain error from its text; \<^verbatim>\<open>fmt.Errorf("prefix %w", err)\<close> wraps \<open>err\<close>: the message
  is the prefix followed by the message of \<open>err\<close>, and \<open>err\<close> stays reachable by
  unwrapping.
\<close>

datatype error = Errorf string | Wrapf string error

fun Error :: "error \<Rightarrow> string" where
  "Error (Errorf s) = s"
| "Error (Wrapf p e) = p @ Error e"


section \<open>HTTP headers, requests and the response writer\<close>

text \<open>
  \<^verbatim>\<open>http.Header\<close> is \<^verbatim>\<open>map[string][]string\<close>. Header names are compared as the
  code writes them. \<^verbatim>\<open>Get\<close> returns the first value, or the empty string when the
  name is absent.
\<close>

type_synonym Header = "string \<rightharpoonup> string list"

definition Header_Get :: "Header \<Rightarrow> string \<Rightarrow> string" where
  "Header_Get h k = (case h k of Some (v # vs) \<Rightarrow> v | _ \<Rightarrow> [])"

definition Header_Set :: "Header \<Rightarrow> string \<Rightarrow> string \<Rightarrow> Header" where
  "Header_Set h k v = h(k \<mapsto> [v])"

definition Header_Del :: "Header \<Rightarrow> string \<Rightarrow> Header" where
  "Header_Del h k = h(k := None)"

record Request =
  Method :: string
  URLPath :: string
  ReqHeader :: Header

section \<open>Package htmx and package request: request predicates\<close>

definition HXRequest :: string where "HXRequest = ''HX-Request''"
definition HXBoosted :: string where "HXBoosted = ''HX-Boosted''"
definition HXRedirect :: string where "HXRedirect = ''HX-Redirect''"

text \<open>
  Modelled from the spec: the functions \<^verbatim>\<open>htmx.IsHtmxRequest\<close>,
  \<^verbatim>\<open>htmx.IsBoostedRequest\<close>, \<^verbatim>\<open>htmx.IsAnyHtmxRequest\<close> and
  \<^verbatim>\<open>request.IsXMLHttpRequest\<close> are called by the sources but their bodies are not
  among them. The two HTMX markers are boolean-valued request headers; a marker is set
  when the header carries \<^verbatim>\<open>true\<close>, which is what HTMX sends and what
  \<^verbatim>\<open>TestHXHeaders\<close> puts on the request. An XMLHttpRequest is marked by
  \<^verbatim>\<open>X-Requested-With: XMLHttpRequest\<close>.
\<close>

definition hx_header_set :: "Request \<Rightarrow> string \<Rightarrow> bool" where
  "hx_header_set r k = (Header_Get (ReqHeader r) k = ''true'')"

definition IsBoostedRequest :: "Request \<Rightarrow> bool" where
  "IsBoostedRequest r = hx_header_set r HXBoosted"

definition IsHtmxRequest :: "Request \<Rightarrow> bool" where
  "IsHtmxRequest r = (hx_header_set r HXRequest \<and> \<not> hx_header_set r HXBoosted)"

definition IsAnyHtmxRequest :: "Request \<Rightarrow> bool" where
  "IsAnyHtmxRequest r = (hx_header_set r HXRequest \<or> hx_header_set r HXBoosted)"

definition IsXMLHttpRequest :: "Request \<Rightarrow> bool" where
  "IsXMLHttpRequest r = (Header_Get (ReqHeader r) ''X-Requested-With'' = ''XMLHttpRequest'')"

text \<open>\<^verbatim>\<open>httptest.NewRequest("GET", "http://example.com", nil)\<close> with the given headers set.\<close>

definition NewRequest :: "string \<Rightarrow> string \<Rightarrow> (string \<times> string) list \<Rightarrow> Request" where
  "NewRequest m p hs =
     \<lparr>Method = m, URLPath = p,
      ReqHeader = foldl (\<lambda>h (k, v). Header_Set h k v) Map.empty hs\<rparr>"


text \<open>
  The \<^verbatim>\<open>http.ResponseWriter\<close> behind the interface is the recorder the tests use
  (\<^verbatim>\<open>httptest.NewRecorder\<close>): \<open>header\<close> is the map \<^verbatim>\<open>w.Header()\<close> returns; the first
  \<^verbatim>\<open>WriteHeader\<close> fixes the status code and the headers sent, later calls change
  nothing; \<^verbatim>\<open>Write\<close> sends status 200 first when no status has been sent, and
  appends to the body. Writes to the recorder do not fail.

  As the writers of net/http do, the recorder checks the code of the first
  \<^verbatim>\<open>WriteHeader\<close> (\<^verbatim>\<open>checkWriteHeaderCode\<close>) and panics when it is below 100 or above
  999. A panic ends the call of the handler: \<open>panicked\<close> records that it ended so, the
  status and the headers are not sent, and what the handler would have done next is not
  done. \<open>WriteHeader_panics\<close> tells a caller that has more to do whether to stop.
\<close>

record ResponseWriter =
  header :: Header
  status :: "int option"
  sentHeader :: Header
  body :: string
  panicked :: bool

definition NewRecorder :: ResponseWriter where
  "NewRecorder = \<lparr>header = Map.empty, status = None, sentHeader = Map.empty, body = [],
                  panicked = False\<rparr>"

definition checkWriteHeaderCode :: "int \<Rightarrow> bool" where
  "checkWriteHeaderCode code = (100 \<le> code \<and> code \<le> 999)"

definition WriteHeader :: "ResponseWriter \<Rightarrow> int \<Rightarrow> ResponseWriter" where
  "WriteHeader w code =
     (if status w \<noteq> None then w
      else if \<not> checkWriteHeaderCode code then w\<lparr>panicked := True\<rparr>
      else w\<lparr>status := Some code, sentHeader := header w\<rparr>)"

definition WriteHeader_panics :: "ResponseWriter \<Rightarrow> int \<Rightarrow> bool" where
  "WriteHeader_panics w code = (status w = None \<and> \<not> checkWriteHeaderCode code)"

definition Write :: "ResponseWriter \<Rightarrow> string \<Rightarrow> ResponseWriter" where
  "Write w bs =
     (let w' = (if status w = None then WriteHeader w 200 else w)
      in w'\<lparr>body := body w' @ bs\<rparr>)"

definition StatusOK :: int where "StatusOK = 200"
definition StatusFound :: int where "StatusFound = 302"
definition StatusSeeOther :: int where "StatusSeeOther = 303"
definition StatusInternalServerError :: int where "StatusInternalServerError = 500"

text \<open>
  \<^verbatim>\<open>http.Error(w, msg, code)\<close>: drops \<^verbatim>\<open>Content-Length\<close>, sets the plain-text content
  type, writes the status and then the message followed by a newline.
\<close>

definition http_Error :: "ResponseWriter \<Rightarrow> string \<Rightarrow> int \<Rightarrow> ResponseWriter" where
  "http_Error w msg code =
     (let h = Header_Del (header w) ''Content-Length'';
          h = Header_Set h ''Content-Type'' ''text/plain; charset=utf-8'';
          h = Header_Set h ''X-Content-Type-Options'' ''nosniff'';
          w = w\<lparr>header := h\<rparr>
      in if WriteHeader_panics w code then WriteHeader w code
         else Write (WriteHeader w code) (msg @ [CHR 0x0A]))"

text \<open>
  \<^verbatim>\<open>http.Redirect(w, r, url, code)\<close>. The standard library resolves a relative target
  against the request path and escapes it; these pure helpers are the fields of
  \<open>NetHTTP\<close>, as is the string encoding of encoding/json, which \<open>Redirect\<close> needs.
\<close>

record NetHTTP =
  resolveURL :: "Request \<Rightarrow> string \<Rightarrow> string"
  hexEscapeNonASCII :: "string \<Rightarrow> string"
  htmlEscape :: "string \<Rightarrow> string"
  StatusText :: "int \<Rightarrow> string"
  jsonString :: "string \<Rightarrow> string"

definition http_Redirect ::
  "NetHTTP \<Rightarrow> ResponseWriter \<Rightarrow> Request \<Rightarrow> string \<Rightarrow> int \<Rightarrow> ResponseWriter" where
  "http_Redirect lib w r url code =
     (let url = resolveURL lib r url;
          hadCT = (header w ''Content-Type'' \<noteq> None);
          h = Header_Set (header w) ''Location'' (hexEscapeNonASCII lib url);
          h = (if \<not> hadCT \<and> (Method r = ''GET'' \<or> Method r = ''HEAD'')
               then Header_Set h ''Content-Type'' ''text/html; charset=utf-8'' else h);
          w0 = w\<lparr>header := h\<rparr>;
          w = WriteHeader w0 code
      in if WriteHeader_panics w0 code then w
         else if \<not> hadCT \<and> Method r = ''GET''
         then Write w (''<a href='' @ [CHR 0x22] @ htmlEscape lib url @ [CHR 0x22] @ ''>''
                        @ StatusText lib code @ ''</a>.'' @ [CHR 0x0A] @ [CHR 0x0A])
         else w)"

section \<open>Package strings and package path/filepath\<close>

fun last_index :: "string \<Rightarrow> string \<Rightarrow> nat option" where
  "last_index [] sub = (if sub = [] then Some 0 else None)"
| "last_index (c # cs) sub =
     (case last_index cs sub of
        Some i \<Rightarrow> Some (Suc i)
      | None \<Rightarrow> if prefix sub (c # cs) then Some 0 else None)"

text \<open>\<^verbatim>\<open>strings.LastIndex(s, sub)\<close>: the index of the last instance of \<open>sub\<close>, or \<open>-1\<close>.\<close>

definition strings_LastIndex :: "string \<Rightarrow> string \<Rightarrow> int" where
  "strings_LastIndex s sub = (case last_index s sub of None \<Rightarrow> - 1 | Some i \<Rightarrow> int i)"

definition strings_TrimSuffix :: "string \<Rightarrow> string \<Rightarrow> string" where
  "strings_TrimSuffix s suf = (if suffix suf s then take (length s - length suf) s else s)"

fun strings_Join :: "string list \<Rightarrow> string \<Rightarrow> string" where
  "strings_Join [] sep = []"
| "strings_Join [x] sep = x"
| "strings_Join (x # y # ys) sep = x @ sep @ strings_Join (y # ys) sep"

text \<open>\<^verbatim>\<open>strings.Contains(s, sub)\<close>, which the tests apply to response bodies.\<close>

definition strings_Contains :: "string \<Rightarrow> string \<Rightarrow> bool" where
  "strings_Contains s sub = sublist sub s"

text \<open>
  \<^verbatim>\<open>filepath.Ext\<close> scans backwards from the end of the path to the last separator
  (\<^verbatim>\<open>/\<close>) and returns the suffix that starts at the first dot it meets, or the empty
  string.
\<close>

definition filepath_Ext :: "string \<Rightarrow> string" where
  "filepath_Ext p =
     (let el = takeWhile (\<lambda>c. c \<noteq> CHR ''/'') (rev p)
      in if CHR ''.'' \<in> set el
         then CHR ''.'' # rev (takeWhile (\<lambda>c. c \<noteq> CHR ''.'') el)
         else [])"

text \<open>
  \<^verbatim>\<open>filepath.Rel("", path)\<close> on the paths \<^verbatim>\<open>fs.WalkDir\<close> produces (clean and
  slash-separated): a rooted path cannot be made relative, any other path is returned
  as it is.
\<close>

definition filepath_Rel :: "string \<Rightarrow> error + string" where
  "filepath_Rel p =
     (if prefix ''/'' p then Inl (Errorf (''Rel: can't make '' @ p @ '' relative to ''))
      else Inr p)"

section \<open>Package constants\<close>

definition RootFSID :: string where "RootFSID = ''__ROOT__''"
definition ViewsDir :: string where "ViewsDir = ''views''"
definition PartialsDir :: string where "PartialsDir = ''partials''"
definition LayoutsDir :: string where "LayoutsDir = ''layouts''"
definition SystemDir :: string where "SystemDir = ''system''"


section \<open>Package response: the response builder\<close>

text \<open>
  Modelled from the spec: the declaration of \<^verbatim>\<open>response.Response\<close> and its plain
  accessors are not among the sources (only its HTMX and cache-header setters are, which
  show the field \<^verbatim>\<open>headers\<close> as a string-to-string map). The fields are those of the
  spec's data model: template path, layout name, status code (0 when unset), header
  mapping, page data, error message and field errors. \<^verbatim>\<open>Path\<close>, \<^verbatim>\<open>Layout\<close>,
  \<^verbatim>\<open>Status\<close>, \<^verbatim>\<open>StatusError\<close> and \<^verbatim>\<open>Errors\<close> set fields and return the
  response; \<^verbatim>\<open>TemplatePath\<close>, \<^verbatim>\<open>TemplateLayout\<close>, \<^verbatim>\<open>StatusCode\<close> and \<^verbatim>\<open>Headers\<close>
  read them; \<^verbatim>\<open>HTTPHeader\<close> gives the header mapping as an \<^verbatim>\<open>http.Header\<close>.
  A status code is a Go \<^verbatim>\<open>int\<close>; the code compares status codes and never computes
  with them, so they are integers here.
\<close>

record 'v Response =
  templatePath :: string
  templateLayout :: string
  statusCode :: int
  headers :: "string \<rightharpoonup> string"
  pageData :: "string \<rightharpoonup> 'v"
  errorMsg :: string
  fieldErrors :: "string \<rightharpoonup> string"

definition NewResponse :: "'v Response" where
  "NewResponse = \<lparr>templatePath = [], templateLayout = [], statusCode = 0,
     headers = Map.empty, pageData = Map.empty, errorMsg = [], fieldErrors = Map.empty\<rparr>"

definition Path :: "'v Response \<Rightarrow> string \<Rightarrow> 'v Response" where
  "Path resp p = resp\<lparr>templatePath := p\<rparr>"

definition Layout :: "'v Response \<Rightarrow> string \<Rightarrow> 'v Response" where
  "Layout resp l = resp\<lparr>templateLayout := l\<rparr>"

definition Response_Status :: "'v Response \<Rightarrow> int \<Rightarrow> 'v Response" where
  "Response_Status resp c = resp\<lparr>statusCode := c\<rparr>"

definition StatusError :: "'v Response \<Rightarrow> 'v Response" where
  "StatusError resp = Response_Status resp StatusInternalServerError"

definition Errors :: "'v Response \<Rightarrow> string \<Rightarrow> (string \<rightharpoonup> string) \<Rightarrow> 'v Response" where
  "Errors resp msg fe = resp\<lparr>errorMsg := msg, fieldErrors := fe\<rparr>"

definition Response_Header :: "'v Response \<Rightarrow> string \<Rightarrow> string \<Rightarrow> 'v Response" where
  "Response_Header resp k v = resp\<lparr>headers := (headers resp)(k \<mapsto> v)\<rparr>"

definition HTTPHeader :: "'v Response \<Rightarrow> Header" where
  "HTTPHeader resp = (\<lambda>k. case headers resp k of None \<Rightarrow> None | Some v \<Rightarrow> Some [v])"

section \<open>The template engine and the mounted file systems\<close>

text \<open>
  \<^verbatim>\<open>fs.WalkDir(fsys, root, fn)\<close> calls \<open>fn\<close> on the entries below \<open>root\<close> in lexical
  order, passing the error it met at an entry, and stops at the first call of \<open>fn\<close>
  that returns an error. The callbacks of this library return only such errors (never
  \<^verbatim>\<open>SkipDir\<close>), so a walk is the list of entries it would visit.
\<close>

datatype WalkEntry = WalkEntry (wpath: string) (wisDir: bool) (werr: "error option")

record FS =
  Open :: "string \<Rightarrow> bool"
  WalkDir :: "string \<Rightarrow> WalkEntry list"
  ReadFile :: "string \<rightharpoonup> string"

text \<open>
  The engine is html/template, which the library calls and does not implement.
  \<open>New\<close> is \<^verbatim>\<open>template.New("base").Funcs(funcMap)\<close>; \<open>ParseFS t fsys path\<close> parses one file
  into the template set \<open>t\<close> (\<open>fsys\<close> is \<open>None\<close> for a nil file system);
  \<open>ExecuteTemplate t name data\<close> gives the bytes it wrote before it stopped, and the
  error that stopped it.
\<close>

record ('t, 'p) Engine =
  New :: 't
  ParseFS :: "'t \<Rightarrow> FS option \<Rightarrow> string \<Rightarrow> error + 't"
  Clone :: "'t \<Rightarrow> error + 't"
  ExecuteTemplate :: "'t \<Rightarrow> string \<Rightarrow> 'p \<Rightarrow> string \<times> error option"

text \<open>A call either returns or panics (\<^verbatim>\<open>template.Must\<close> panics on an error).\<close>

datatype 'a outcome = Returns 'a | Panics error

section \<open>TemplateAdapter\<close>

text \<open>
  \<open>fileSystemMap\<close> is a Go map. A \<^verbatim>\<open>range\<close> loop over a map visits each entry once, in
  an order that Go leaves unspecified and that may differ from one loop to the next. The
  order of a loop is given as the list of the keys in the order it visits them, and
  \<open>range_entries\<close> is the sequence of entries it visits (for a loop of Go the list is a
  permutation of the keys of the map). \<^verbatim>\<open>loadPartials\<close> and \<^verbatim>\<open>Init\<close> each have their own
  order.
\<close>

record 't TemplateAdapter =
  extension :: string
  fileSystemMap :: "string \<rightharpoonup> FS"
  templates :: "string \<rightharpoonup> 't"

fun range_entries :: "(string \<rightharpoonup> FS) \<Rightarrow> string list \<Rightarrow> (string \<times> FS) list" where
  "range_entries m [] = []"
| "range_entries m (k # ks) =
     (case m k of
        None \<Rightarrow> range_entries m ks
      | Some fsys \<Rightarrow> (k, fsys) # range_entries m ks)"

text \<open>The callback \<^verbatim>\<open>processPartials\<close> of \<^verbatim>\<open>loadPartials\<close>, run over a walk.\<close>

fun processPartials ::
  "('t, 'p) Engine \<Rightarrow> string \<Rightarrow> FS \<Rightarrow> WalkEntry list \<Rightarrow> 't \<Rightarrow> error + 't" where
  "processPartials eng ext fsys [] base = Inr base"
| "processPartials eng ext fsys (d # ds) base =
     (case werr d of
        Some err \<Rightarrow> Inl err
      | None \<Rightarrow>
          if \<not> wisDir d \<and> filepath_Ext (wpath d) = ext
          then (case ParseFS eng base (Some fsys) (wpath d) of
                  Inl err \<Rightarrow> Inl err
                | Inr base' \<Rightarrow> processPartials eng ext fsys ds base')
          else processPartials eng ext fsys ds base)"

fun loadPartials_range ::
  "('t, 'p) Engine \<Rightarrow> string \<Rightarrow> (string \<times> FS) list \<Rightarrow> 't \<Rightarrow> error + 't" where
  "loadPartials_range eng ext [] base = Inr base"
| "loadPartials_range eng ext ((fsID, fsys) # rest) base =
     (if Open fsys PartialsDir
      then (case processPartials eng ext fsys (WalkDir fsys PartialsDir) base of
              Inl err \<Rightarrow> Inl err
            | Inr base' \<Rightarrow> loadPartials_range eng ext rest base')
      else loadPartials_range eng ext rest base)"

definition loadPartials ::
  "('t, 'p) Engine \<Rightarrow> string list \<Rightarrow> 't TemplateAdapter \<Rightarrow> error + 't" where
  "loadPartials eng pks a =
     loadPartials_range eng (extension a) (range_entries (fileSystemMap a) pks) (New eng)"

definition pageName_of :: "string \<Rightarrow> string \<Rightarrow> string" where
  "pageName_of fsID relPath =
     (let pageName = strings_TrimSuffix relPath (filepath_Ext relPath)
      in if fsID \<noteq> RootFSID then fsID @ '':'' @ pageName else pageName)"

text \<open>
  The callback \<^verbatim>\<open>processDirectory\<close> of \<^verbatim>\<open>Init\<close>, run over a walk; it stores into
  \<^verbatim>\<open>a.templates\<close>, so the registry is threaded through and returned with the result.
\<close>

fun processDirectory ::
  "('t, 'p) Engine \<Rightarrow> string \<Rightarrow> 't \<Rightarrow> string \<Rightarrow> FS \<Rightarrow> WalkEntry list
     \<Rightarrow> (string \<rightharpoonup> 't) \<Rightarrow> (string \<rightharpoonup> 't) \<times> error option outcome" where
  "processDirectory eng ext base fsID fsys [] tm = (tm, Returns None)"
| "processDirectory eng ext base fsID fsys (d # ds) tm =
     (case werr d of
        Some err \<Rightarrow> (tm, Returns (Some err))
      | None \<Rightarrow>
          if \<not> wisDir d \<and> filepath_Ext (wpath d) = ext
          then (case filepath_Rel (wpath d) of
                  Inl err \<Rightarrow> (tm, Returns (Some err))
                | Inr relPath \<Rightarrow>
                    (case Clone eng base of
                       Inl err \<Rightarrow> (tm, Panics err)
                     | Inr c \<Rightarrow>
                         (case ParseFS eng c (Some fsys) (wpath d) of
                            Inl err \<Rightarrow> (tm, Returns (Some err))
                          | Inr tmpl \<Rightarrow>
                              processDirectory eng ext base fsID fsys ds
                                (tm(pageName_of fsID relPath \<mapsto> tmpl)))))
          else processDirectory eng ext base fsID fsys ds tm)"

fun Init_range ::
  "('t, 'p) Engine \<Rightarrow> string \<Rightarrow> 't \<Rightarrow> (string \<times> FS) list
     \<Rightarrow> (string \<rightharpoonup> 't) \<Rightarrow> (string \<rightharpoonup> 't) \<times> error option outcome" where
  "Init_range eng ext base [] tm = (tm, Returns None)"
| "Init_range eng ext base ((fsID, fsys) # rest) tm =
     (if Open fsys ViewsDir
      then (case processDirectory eng ext base fsID fsys (WalkDir fsys ViewsDir) tm of
              (tm', Returns None) \<Rightarrow> Init_range eng ext base rest tm'
            | (tm', res) \<Rightarrow> (tm', res))
      else Init_range eng ext base rest tm)"

text \<open>
  \<^verbatim>\<open>Init\<close>; \<open>pks\<close> is the order of the loop of \<^verbatim>\<open>loadPartials\<close> and \<open>vks\<close> the order of
  the loop over the views.
\<close>

definition TemplateAdapter_Init ::
  "('t, 'p) Engine \<Rightarrow> string list \<Rightarrow> string list \<Rightarrow> 't TemplateAdapter
     \<Rightarrow> 't TemplateAdapter \<times> error option outcome" where
  "TemplateAdapter_Init eng pks vks a =
     (let a = a\<lparr>templates := Map.empty\<rparr>
      in case loadPartials eng pks a of
           Inl err \<Rightarrow> (a, Returns (Some (Wrapf ''error loading partials. '' err)))
         | Inr baseTemplate \<Rightarrow>
             (case Init_range eng (extension a) baseTemplate
                     (range_entries (fileSystemMap a) vks) (templates a) of
                (tm, res) \<Rightarrow> (a\<lparr>templates := tm\<rparr>, res)))"

definition NewTemplateViewAdapter :: "string \<Rightarrow> (string \<rightharpoonup> FS) \<Rightarrow> 't TemplateAdapter" where
  "NewTemplateViewAdapter ext fsm =
     \<lparr>extension = (if ext = [] then ''.gtml'' else ext), fileSystemMap = fsm,
      templates = Map.empty\<rparr>"

subsection \<open>Rendering\<close>

definition viewsPath :: "string list \<Rightarrow> string" where
  "viewsPath path = ViewsDir @ ''/'' @ strings_Join path ''/''"

definition handleError :: "ResponseWriter \<Rightarrow> Request \<Rightarrow> error option \<Rightarrow> ResponseWriter" where
  "handleError w r err =
     (case err of
        Some e \<Rightarrow> http_Error w (Error e) StatusInternalServerError
      | None \<Rightarrow> w)"

definition getTemplate ::
  "('t, 'p) Engine \<Rightarrow> 't TemplateAdapter \<Rightarrow> 'v Response \<Rightarrow> error + 't" where
  "getTemplate eng a resp =
     (case templates a (templatePath resp) of
        None \<Rightarrow> Inl (Errorf (''template not found: '' @ templatePath resp))
      | Some pageTmpl \<Rightarrow>
          (case Clone eng pageTmpl of
             Inl err \<Rightarrow> Inl (Wrapf ''error cloning template: '' err)
           | Inr tmpl \<Rightarrow>
               (let layoutPath = LayoutsDir @ ''/'' @ templateLayout resp @ extension a
                in case ParseFS eng tmpl (fileSystemMap a RootFSID) layoutPath of
                     Inl err \<Rightarrow> Inl (Wrapf ''error parsing layout: '' err)
                   | Inr tmpl' \<Rightarrow> Inr tmpl')))"

text \<open>
  \<open>vd r resp\<close> stands for \<^verbatim>\<open>resp.ViewData(r).Data()\<close>, the value handed to the engine
  and to the JSON encoder; \<^verbatim>\<open>ViewData\<close> belongs to the part of package response that
  is not among the sources. The headers of the response have distinct names, so the
  order in which the loop sets them does not show.
\<close>

definition execTemplate ::
  "('t, 'p) Engine \<Rightarrow> (Request \<Rightarrow> 'v Response \<Rightarrow> 'p) \<Rightarrow> 't TemplateAdapter
     \<Rightarrow> ResponseWriter \<Rightarrow> Request \<Rightarrow> 'v Response \<Rightarrow> 't \<Rightarrow> ResponseWriter" where
  "execTemplate eng vd a w r resp tmpl =
     (case ExecuteTemplate eng tmpl ''layout'' (vd r resp) of
        (buf, Some err) \<Rightarrow>
          (let path = viewsPath [SystemDir, ''server-error'']
           in if templatePath resp = path
              then http_Error w (Error (Wrapf ''error executing template: '' err))
                     StatusInternalServerError
              else handleError w r (Some (Wrapf ''error executing template: '' err)))
      | (buf, None) \<Rightarrow>
          (let w = w\<lparr>header := (\<lambda>key. case headers resp key of
                                         Some v \<Rightarrow> Some [v]
                                       | None \<Rightarrow> header w key)\<rparr>;
               w' = WriteHeader w (statusCode resp)
           in if WriteHeader_panics w (statusCode resp) then w'
              else if buf = [] then w' else Write w' buf))"

definition TemplateAdapter_Render ::
  "('t, 'p) Engine \<Rightarrow> (Request \<Rightarrow> 'v Response \<Rightarrow> 'p) \<Rightarrow> 't TemplateAdapter
     \<Rightarrow> ResponseWriter \<Rightarrow> Request \<Rightarrow> 'v Response \<Rightarrow> ResponseWriter" where
  "TemplateAdapter_Render eng vd a w r resp =
     (case getTemplate eng a resp of
        Inl err \<Rightarrow> handleError w r (Some err)
      | Inr tmpl \<Rightarrow> execTemplate eng vd a w r resp tmpl)"

text \<open>
  \<^verbatim>\<open>RenderSystemError\<close>, without its logging; \<open>lineErrors\<close> is the text it formats from
  the stack trace of the running goroutine.
\<close>

definition TemplateAdapter_RenderSystemError ::
  "('t, 'p) Engine \<Rightarrow> (Request \<Rightarrow> 'v Response \<Rightarrow> 'p) \<Rightarrow> string \<Rightarrow> 't TemplateAdapter
     \<Rightarrow> ResponseWriter \<Rightarrow> Request \<Rightarrow> error \<Rightarrow> 'v Response \<Rightarrow> ResponseWriter" where
  "TemplateAdapter_RenderSystemError eng vd lineErrors a w r err resp =
     (let path = viewsPath [SystemDir, ''500'']
      in if templates a path \<noteq> None
         then TemplateAdapter_Render eng vd a w r
                (StatusError (Errors (Path resp path) (Error err)
                   [''LineErrors'' \<mapsto> lineErrors]))
         else http_Error w (Error err) StatusInternalServerError)"

section \<open>The JSON envelope and the JSON adapter\<close>

text \<open>\<open>Data\<close> is \<open>None\<close> for a nil payload; \<open>Code\<close> is left out of the JSON text when 0.\<close>

record 'p Envelope =
  Status :: string
  Message :: string
  Data :: "'p option"
  Code :: int

text \<open>
  \<open>marshal\<close> is \<^verbatim>\<open>json.MarshalIndent(data, "", "\t")\<close>, which fails on a value it cannot
  encode. Each of \<open>hdrs\<close> is copied onto the writer's header map, name by name. When
  \<^verbatim>\<open>WriteHeader\<close> panics, the function does not return; its callers do nothing after
  a return without error, so the writer it leaves is the result of the whole call.
\<close>

definition JSONWithHeaders ::
  "('p Envelope \<Rightarrow> error + string) \<Rightarrow> ResponseWriter \<Rightarrow> int \<Rightarrow> 'p Envelope \<Rightarrow> Header list
     \<Rightarrow> ResponseWriter \<times> error option" where
  "JSONWithHeaders marshal w st data hdrs =
     (case marshal data of
        Inl err \<Rightarrow> (w, Some err)
      | Inr js \<Rightarrow>
          (let js = js @ [CHR 0x0A];
               w = w\<lparr>header := foldl (\<lambda>h hd. h ++ hd) (header w) hdrs\<rparr>;
               w = w\<lparr>header := Header_Set (header w) ''Content-Type''
                                  ''application/json; charset=UTF-8''\<rparr>;
               w' = WriteHeader w st
           in if WriteHeader_panics w st then (w', None) else (Write w' js, None)))"

definition JSONSuccessWithStatus ::
  "('p Envelope \<Rightarrow> error + string) \<Rightarrow> ResponseWriter \<Rightarrow> int \<Rightarrow> 'p option \<Rightarrow> Header list
     \<Rightarrow> ResponseWriter \<times> error option" where
  "JSONSuccessWithStatus marshal w st data hdrs =
     JSONWithHeaders marshal w st
       \<lparr>Status = ''success'', Message = ''Success'', Data = data, Code = st\<rparr> hdrs"

definition JSONFailure ::
  "('p Envelope \<Rightarrow> error + string) \<Rightarrow> ResponseWriter \<Rightarrow> 'p option \<Rightarrow> string \<Rightarrow> int
     \<Rightarrow> Header list \<Rightarrow> ResponseWriter \<times> error option" where
  "JSONFailure marshal w data message st hdrs =
     JSONWithHeaders marshal w st
       \<lparr>Status = ''fail'', Message = message, Data = data, Code = st\<rparr> hdrs"

definition JSONError ::
  "('p Envelope \<Rightarrow> error + string) \<Rightarrow> ResponseWriter \<Rightarrow> string \<Rightarrow> int \<Rightarrow> Header list
     \<Rightarrow> ResponseWriter \<times> error option" where
  "JSONError marshal w message st hdrs =
     JSONWithHeaders marshal w st
       \<lparr>Status = ''error'', Message = message, Data = None, Code = st\<rparr> hdrs"

definition JSONAdapter_RenderSystemError ::
  "('p Envelope \<Rightarrow> error + string) \<Rightarrow> ResponseWriter \<Rightarrow> Request \<Rightarrow> error \<Rightarrow> 'v Response
     \<Rightarrow> ResponseWriter" where
  "JSONAdapter_RenderSystemError marshal w r err resp =
     (case JSONError marshal w (Error err) StatusInternalServerError [Map.empty] of
        (w', Some e) \<Rightarrow> http_Error w' (Error e) StatusInternalServerError
      | (w', None) \<Rightarrow> w')"

text \<open>\<^verbatim>\<open>JSONAdapter.Render\<close> may set the status of the response, which it returns.\<close>

definition JSONAdapter_Render ::
  "('p Envelope \<Rightarrow> error + string) \<Rightarrow> (Request \<Rightarrow> 'v Response \<Rightarrow> 'p) \<Rightarrow> ResponseWriter
     \<Rightarrow> Request \<Rightarrow> 'v Response \<Rightarrow> ResponseWriter \<times> 'v Response" where
  "JSONAdapter_Render marshal vd w r resp =
     (let resp = (if statusCode resp = 0 then Response_Status resp StatusOK else resp)
      in if statusCode resp > 299
         then (case JSONFailure marshal w (Some (vd r resp)) ''Failure'' (statusCode resp)
                      [HTTPHeader resp] of
                 (w', Some err) \<Rightarrow> (JSONAdapter_RenderSystemError marshal w' r err resp, resp)
               | (w', None) \<Rightarrow> (w', resp))
         else (case JSONSuccessWithStatus marshal w (statusCode resp) (Some (vd r resp))
                      [HTTPHeader resp] of
                 (w', Some err) \<Rightarrow> (JSONAdapter_RenderSystemError marshal w' r err resp, resp)
               | (w', None) \<Rightarrow> (w', resp)))"

definition JSONAdapter_Init :: "unit \<Rightarrow> unit \<times> error option outcome" where
  "JSONAdapter_Init v = (v, Returns None)"


section \<open>The Adapter interface and the HyperView facade\<close>

text \<open>
  An \<^verbatim>\<open>Adapter\<close> is an interface value: a pointer to an object that has its own state
  and its own methods. \<open>Init\<close> and \<open>Render\<close> may change the state of the object;
  \<open>Render\<close> writes to the response writer and may change the response it is given. (The
  six error-page methods of the interface are not used below.) Adapter objects live in a
  store, and the registry of the facade holds their addresses, so that two lookups of one
  name give the same object.
\<close>

record ('st, 'v) Adapter =
  Init :: "'st \<Rightarrow> 'st \<times> error option outcome"
  Render :: "'st \<Rightarrow> ResponseWriter \<Rightarrow> Request \<Rightarrow> 'v Response
               \<Rightarrow> 'st \<times> ResponseWriter \<times> 'v Response"

record ('st, 'v) object =
  state :: 'st
  methods :: "('st, 'v) Adapter"

type_synonym ref = nat

type_synonym ('st, 'v) store = "ref \<Rightarrow> ('st, 'v) object"

record HyperView =
  adapters :: "string \<rightharpoonup> ref"
  baseLayout :: string
  systemLayout :: string

text \<open>\<^verbatim>\<open>RegisterAdapter\<close>: store the adapter under the name, then run its \<open>Init\<close>.\<close>

definition RegisterAdapter ::
  "('st, 'v) store \<Rightarrow> HyperView \<Rightarrow> string \<Rightarrow> ref
     \<Rightarrow> ('st, 'v) store \<times> HyperView \<times> error option outcome" where
  "RegisterAdapter h s name adapter =
     (let s = s\<lparr>adapters := (adapters s)(name \<mapsto> adapter)\<rparr>
      in case adapters s name of
           None \<Rightarrow> (h, s, Panics (Errorf ''nil pointer dereference''))
         | Some p \<Rightarrow>
             (case Init (methods (h p)) (state (h p)) of
                (st, res) \<Rightarrow> (h(p := (h p)\<lparr>state := st\<rparr>), s, res)))"

text \<open>\<^verbatim>\<open>Adapter(name)\<close>: the pair of the adapter and \<open>ok\<close> is an optional address.\<close>

definition Adapter :: "HyperView \<Rightarrow> string \<Rightarrow> ref option" where
  "Adapter s name = adapters s name"

definition adapterFor ::
  "HyperView \<Rightarrow> ResponseWriter \<Rightarrow> string \<Rightarrow> ResponseWriter \<times> ref option" where
  "adapterFor s w key =
     (let key = (if key = [] then ''html'' else key)
      in case Adapter s key of
           None \<Rightarrow> (http_Error w ''Adapter not found'' StatusInternalServerError, None)
         | Some adapter \<Rightarrow> (w, Some adapter))"

definition RenderAs ::
  "('st, 'v) store \<Rightarrow> HyperView \<Rightarrow> ResponseWriter \<Rightarrow> Request \<Rightarrow> string \<Rightarrow> 'v Response
     \<Rightarrow> ('st, 'v) store \<times> ResponseWriter \<times> 'v Response" where
  "RenderAs h s w r adapterKey resp =
     (case adapterFor s w adapterKey of
        (w', None) \<Rightarrow> (h, w', resp)
      | (w', Some p) \<Rightarrow>
          (let resp = (if templateLayout resp = [] then Layout resp (baseLayout s) else resp)
           in case Render (methods (h p)) (state (h p)) w' r resp of
                (st, w'', resp') \<Rightarrow> (h(p := (h p)\<lparr>state := st\<rparr>), w'', resp')))"

text \<open>
  \<^verbatim>\<open>HyperView.Render\<close>: \<open>ext\<close> and the shortened path are the two results of the first
  \<^verbatim>\<open>if\<close>; the index is not \<open>-1\<close> there, so both slices are in range.
\<close>

definition HyperView_Render ::
  "('st, 'v) store \<Rightarrow> HyperView \<Rightarrow> ResponseWriter \<Rightarrow> Request \<Rightarrow> 'v Response
     \<Rightarrow> ('st, 'v) store \<times> ResponseWriter \<times> 'v Response" where
  "HyperView_Render h s w r resp =
     (let idx = strings_LastIndex (templatePath resp) ''.'';
          ext = (if idx \<noteq> - 1 then drop (nat idx) (templatePath resp) else []);
          resp = (if idx \<noteq> - 1 then Path resp (take (nat idx) (templatePath resp)) else resp)
      in if Header_Get (HTTPHeader resp) ''Content-Type'' = ''application/json''
         then RenderAs h s w r ''json'' resp
         else if ext = [] \<or> ext = ''.html''
         then RenderAs h s w r ''html'' resp
         else RenderAs h s w r (drop 1 ext) resp)"

definition HxRedirect :: "ResponseWriter \<Rightarrow> string \<Rightarrow> ResponseWriter" where
  "HxRedirect w url =
     (let w = w\<lparr>header := Header_Set (header w) HXRedirect url\<rparr>;
          w = WriteHeader w StatusSeeOther
      in Write w ''redirecting...'')"

text \<open>
  \<^verbatim>\<open>Redirect\<close>. \<^verbatim>\<open>json.Marshal\<close> writes the three entries of the map in the order of
  their keys; the keys and the two fixed values need no escaping and stand between
  double quotes, and \<open>jsonString\<close> is its encoding of the target.
\<close>

definition quoted :: "string \<Rightarrow> string" where
  "quoted s = [CHR 0x22] @ s @ [CHR 0x22]"

definition Redirect :: "NetHTTP \<Rightarrow> ResponseWriter \<Rightarrow> Request \<Rightarrow> string \<Rightarrow> ResponseWriter" where
  "Redirect lib w r url =
     (if IsHtmxRequest r then HxRedirect w url
      else if IsXMLHttpRequest r then
        (let w = w\<lparr>header := Header_Set (header w) ''Content-Type'' ''application/json''\<rparr>;
             w = WriteHeader w StatusOK;
             jsonBytes = ''{'' @ quoted ''message'' @ '':'' @ quoted ''redirecting...''
                         @ '','' @ quoted ''status'' @ '':'' @ quoted ''redirect''
                         @ '','' @ quoted ''url'' @ '':'' @ jsonString lib url @ ''}''
         in Write w jsonBytes)
      else http_Redirect lib w r url StatusFound)"

section \<open>Package response: view data\<close>

text \<open>
  The values of a \<^verbatim>\<open>map[string]any\<close>: nil, a string, a string-to-string map, a pointer
  to a \<^verbatim>\<open>Data\<close> object, or any other value. A nil map is \<open>None\<close>.
\<close>

datatype 'v any = ANil | AString string | AStringMap "string \<rightharpoonup> string" | APointer ref
  | AOther 'v

record 'v Data =
  title :: string
  request :: "Request option"
  viewPageData :: "(string \<rightharpoonup> 'v any) option"
  csrfToken :: string
  environment :: string

definition initData :: "(string \<rightharpoonup> 'v any) option \<Rightarrow> (string \<rightharpoonup> 'v any)" where
  "initData data =
     (let data = (case data of None \<Rightarrow> Map.empty | Some m \<Rightarrow> m);
          data = (if data ''Error'' = None then data(''Error'' \<mapsto> AString []) else data);
          data = (if data ''Errors'' = None then data(''Errors'' \<mapsto> AStringMap Map.empty)
                  else data)
      in data)"

definition NewData :: "(string \<rightharpoonup> 'v any) option \<Rightarrow> 'v Data" where
  "NewData pd =
     \<lparr>title = [], request = None, viewPageData = Some (initData pd),
      csrfToken = [], environment = []\<rparr>"

text \<open>
  \<^verbatim>\<open>Data()\<close> has a pointer receiver: \<open>self\<close> is the address of the object and \<open>v\<close> its
  state; the method returns the map and leaves it in the object.
\<close>

definition Data_Data :: "ref \<Rightarrow> 'v Data \<Rightarrow> 'v Data \<times> (string \<rightharpoonup> 'v any)" where
  "Data_Data self v =
     (let pd = initData (viewPageData v);
          pd = pd(''View'' \<mapsto> APointer self)
      in (v\<lparr>viewPageData := Some pd\<rparr>, pd))"


section \<open>Test doubles and sample inputs\<close>

text \<open>
  \<^verbatim>\<open>mockViewAdapter\<close> of the test suite: its state is the flag \<^verbatim>\<open>renderCalled\<close>,
  \<open>Init\<close> succeeds and \<open>Render\<close> only sets the flag. \<open>failingAdapter\<close> is the same with an
  \<open>Init\<close> that returns an error.
\<close>

definition mockViewAdapter :: "(bool, unit) Adapter" where
  "mockViewAdapter =
     \<lparr>Init = (\<lambda>st. (st, Returns None)), Render = (\<lambda>st w r resp. (True, w, resp))\<rparr>"

definition failingAdapter :: "(bool, unit) Adapter" where
  "failingAdapter =
     \<lparr>Init = (\<lambda>st. (st, Returns (Some (Errorf ''init failed'')))),
      Render = (\<lambda>st w r resp. (True, w, resp))\<rparr>"

text \<open>
  The objects of the tests: mock adapters at every address but 3, where the failing
  adapter lives; and the facade of \<^verbatim>\<open>TestViewService_Render\<close>, with mocks registered as
  \<^verbatim>\<open>html\<close> (address 1) and \<^verbatim>\<open>json\<close> (address 2).
\<close>

definition testStore :: "(bool, unit) store" where
  "testStore = (\<lambda>p. \<lparr>state = False,
                       methods = (if p = 3 then failingAdapter else mockViewAdapter)\<rparr>)"

definition testView :: HyperView where
  "testView = \<lparr>adapters = [''html'' \<mapsto> 1, ''json'' \<mapsto> 2],
               baseLayout = ''base'', systemLayout = ''base''\<rparr>"

definition testRequest :: Request where
  "testRequest = NewRequest ''GET'' ''/'' []"

definition testResponse :: "unit Response" where
  "testResponse = NewResponse"

text \<open>
  A library instance that is right for the target of the tests, an absolute ASCII URL
  without characters that need escaping.
\<close>

definition testLib :: NetHTTP where
  "testLib = \<lparr>resolveURL = (\<lambda>r u. u), hexEscapeNonASCII = (\<lambda>u. u), htmlEscape = (\<lambda>u. u),
              StatusText = (\<lambda>c. if c = 302 then ''Found'' else []),
              jsonString = quoted\<rparr>"

text \<open>
  A small engine: a template set is the list of the sources parsed into it; a source
  that starts with \<^verbatim>\<open>{{\<close> does not parse; a set that holds the source \<^verbatim>\<open>FAIL\<close> stops
  with an error after it has written \<^verbatim>\<open><html>\<close>, any other set writes its sources.
\<close>

definition testEngine :: "(string list, unit) Engine" where
  "testEngine =
     \<lparr>New = [],
      ParseFS = (\<lambda>t fsys path.
        case fsys of
          None \<Rightarrow> Inl (Errorf ''nil file system'')
        | Some f \<Rightarrow>
            (case ReadFile f path of
               None \<Rightarrow> Inl (Errorf (''open '' @ path @ '': file does not exist''))
             | Some src \<Rightarrow>
                 if prefix ''{{'' src then Inl (Errorf (''template: '' @ path @ '': unexpected EOF''))
                 else Inr (t @ [src]))),
      Clone = Inr,
      ExecuteTemplate = (\<lambda>t name d.
        if ''FAIL'' \<in> set t then (''<html>'', Some (Errorf ''template: no template defined''))
        else (concat t, None))\<rparr>"

definition testMarshal :: "unit Envelope \<Rightarrow> error + string" where
  "testMarshal env = Inr (''{'' @ Status env @ '','' @ Message env @ ''}'')"

text \<open>
  \<open>siteFS\<close>: one partial, the pages \<^verbatim>\<open>about\<close> and \<^verbatim>\<open>home\<close> (which fails when executed), the
  system error page \<^verbatim>\<open>system/500\<close> and the layout \<^verbatim>\<open>base\<close>.
\<close>

definition siteFS :: FS where
  "siteFS =
     \<lparr>Open = (\<lambda>d. d = ''views'' \<or> d = ''partials''),
      WalkDir = (\<lambda>d.
        if d = ''views'' then
          [WalkEntry ''views'' True None,
           WalkEntry ''views/about.tmpl'' False None,
           WalkEntry ''views/home.tmpl'' False None,
           WalkEntry ''views/system'' True None,
           WalkEntry ''views/system/500.tmpl'' False None]
        else if d = ''partials'' then
          [WalkEntry ''partials'' True None,
           WalkEntry ''partials/nav.tmpl'' False None]
        else []),
      ReadFile = [''views/about.tmpl'' \<mapsto> ''<p>about</p>'',
                  ''views/home.tmpl'' \<mapsto> ''FAIL'',
                  ''views/system/500.tmpl'' \<mapsto> ''<h1>error</h1>'',
                  ''partials/nav.tmpl'' \<mapsto> ''<nav/>'',
                  ''layouts/base.tmpl'' \<mapsto> ''<html>'']\<rparr>"



text \<open>The adapter of \<open>siteFS\<close> with its registry as \<open>Init\<close> builds it.\<close>

definition siteAdapter :: "string list TemplateAdapter" where
  "siteAdapter =
     \<lparr>extension = ''.tmpl'', fileSystemMap = [RootFSID \<mapsto> siteFS],
      templates = [''views/about'' \<mapsto> [''<nav/>'', ''<p>about</p>''],
                   ''views/home'' \<mapsto> [''<nav/>'', ''FAIL''],
                   ''views/system/500'' \<mapsto> [''<nav/>'', ''<h1>error</h1>'']]\<rparr>"



section \<open>Auxiliary facts\<close>

subsection \<open>The response writer\<close>

lemma status_http_Error:
  "status (http_Error w msg StatusInternalServerError)
     = (case status w of None \<Rightarrow> Some 500 | Some c \<Rightarrow> Some c)"
  "status (http_Error w msg 500) = (case status w of None \<Rightarrow> Some 500 | Some c \<Rightarrow> Some c)"
  by (simp_all add: http_Error_def Let_def WriteHeader_def WriteHeader_panics_def Write_def
      checkWriteHeaderCode_def StatusInternalServerError_def split: option.splits)

lemma body_http_Error:
  "body (http_Error w msg StatusInternalServerError) = body w @ msg @ [CHR 0x0A]"
  "body (http_Error w msg 500) = body w @ msg @ [CHR 0x0A]"
  by (simp_all add: http_Error_def Let_def WriteHeader_def WriteHeader_panics_def Write_def
      checkWriteHeaderCode_def StatusInternalServerError_def)

lemma panicked_http_Error:
  "panicked (http_Error w msg StatusInternalServerError) = panicked w"
  by (simp add: http_Error_def Let_def WriteHeader_def WriteHeader_panics_def Write_def
      checkWriteHeaderCode_def StatusInternalServerError_def)

lemma strings_Contains_mid: "strings_Contains (a @ sub @ b) sub"
  by (simp add: strings_Contains_def)

subsection \<open>The last dot of a path\<close>

lemma last_index_absent: "c \<notin> set s \<Longrightarrow> last_index s [c] = None"
  by (induction s) auto

lemma last_index_last: "c \<notin> set e \<Longrightarrow> last_index (b @ c # e) [c] = Some (length b)"
  by (induction b) (auto simp: last_index_absent)

lemma strings_LastIndex_absent: "c \<notin> set s \<Longrightarrow> strings_LastIndex s [c] = - 1"
  by (simp add: strings_LastIndex_def last_index_absent)

lemma strings_LastIndex_last:
  "c \<notin> set e \<Longrightarrow> strings_LastIndex (b @ c # e) [c] = int (length b)"
  by (simp add: strings_LastIndex_def last_index_last)

lemma filepath_Ext_last_element:
  assumes "CHR ''.'' \<notin> set e" and "CHR ''/'' \<notin> set e"
  shows "filepath_Ext (b @ ''.'' @ e) = ''.'' @ e"
proof -
  have el: "takeWhile (\<lambda>c. c \<noteq> CHR ''/'') (rev e @ CHR ''.'' # rev b)
              = rev e @ CHR ''.'' # takeWhile (\<lambda>c. c \<noteq> CHR ''/'') (rev b)"
  proof -
    have "takeWhile (\<lambda>c. c \<noteq> CHR ''/'') (rev e @ (CHR ''.'' # rev b))
            = rev e @ takeWhile (\<lambda>c. c \<noteq> CHR ''/'') (CHR ''.'' # rev b)"
      by (rule takeWhile_append2) (use assms(2) in auto)
    then show ?thesis by simp
  qed
  have tw: "takeWhile (\<lambda>c. c \<noteq> CHR ''.'')
              (rev e @ CHR ''.'' # takeWhile (\<lambda>c. c \<noteq> CHR ''/'') (rev b)) = rev e"
  proof -
    have "takeWhile (\<lambda>c. c \<noteq> CHR ''.'')
            (rev e @ (CHR ''.'' # takeWhile (\<lambda>c. c \<noteq> CHR ''/'') (rev b)))
          = rev e @ takeWhile (\<lambda>c. c \<noteq> CHR ''.'')
              (CHR ''.'' # takeWhile (\<lambda>c. c \<noteq> CHR ''/'') (rev b))"
      by (rule takeWhile_append2) (use assms(1) in auto)
    then show ?thesis by simp
  qed
  show ?thesis
    by (simp add: filepath_Ext_def Let_def el tw)
qed

lemma HTTPHeader_Path: "HTTPHeader (Path resp p) = HTTPHeader resp"
  by (simp add: HTTPHeader_def Path_def)

lemma Render_no_dot:
  assumes "CHR ''.'' \<notin> set (templatePath resp)"
  shows "HyperView_Render h s w r resp =
           RenderAs h s w r
             (if Header_Get (HTTPHeader resp) ''Content-Type'' = ''application/json''
              then ''json'' else ''html'') resp"
  using assms by (simp add: HyperView_Render_def Let_def strings_LastIndex_absent)

lemma Render_dot:
  assumes "templatePath resp = b @ ''.'' @ e" and "CHR ''.'' \<notin> set e"
  shows "HyperView_Render h s w r resp =
           RenderAs h s w r
             (if Header_Get (HTTPHeader resp) ''Content-Type'' = ''application/json''
              then ''json'' else if e = ''html'' then ''html'' else e) (Path resp b)"
proof -
  have idx: "strings_LastIndex (b @ CHR ''.'' # e) ''.'' = int (length b)"
    using assms(2) by (rule strings_LastIndex_last)
  have p: "Path (Path resp (b @ CHR ''.'' # e)) b = Path resp b" "Path resp (templatePath resp) = resp"
    by (simp_all add: Path_def)
  show ?thesis
    using assms(1) by (auto simp: HyperView_Render_def Let_def idx HTTPHeader_Path p)
qed

lemma RenderAs_unfold:
  "RenderAs h s w r key resp =
     (case adapters s (if key = [] then ''html'' else key) of
        None \<Rightarrow> (h, http_Error w ''Adapter not found'' StatusInternalServerError, resp)
      | Some p \<Rightarrow>
          (case Render (methods (h p)) (state (h p)) w r
                  (if templateLayout resp = [] then Layout resp (baseLayout s) else resp) of
             (st, w', resp') \<Rightarrow> (h(p := (h p)\<lparr>state := st\<rparr>), w', resp')))"
  by (simp add: RenderAs_def adapterFor_def Adapter_def Let_def split: option.splits)

subsection \<open>The JSON helpers\<close>

lemma JSONWithHeaders_one:
  "JSONWithHeaders marshal w st env [hdr] =
     (case marshal env of
        Inl err \<Rightarrow> (w, Some err)
      | Inr js \<Rightarrow>
          (if WriteHeader_panics w st
           then (w\<lparr>header := Header_Set (header w ++ hdr) ''Content-Type''
                                  ''application/json; charset=UTF-8'', panicked := True\<rparr>, None)
           else (Write (WriteHeader (w\<lparr>header := Header_Set (header w ++ hdr) ''Content-Type''
                                  ''application/json; charset=UTF-8''\<rparr>) st) (js @ [CHR 0x0A]),
                 None)))"
  by (auto simp: JSONWithHeaders_def Let_def WriteHeader_panics_def WriteHeader_def
      split: sum.splits)

lemma Response_Status_same: "Response_Status resp (statusCode resp) = resp"
  by (simp add: Response_Status_def)

subsection \<open>View data\<close>

lemma initData_Error:
  "initData d ''Error'' =
     (case d of None \<Rightarrow> Some (AString [])
      | Some m \<Rightarrow> (case m ''Error'' of None \<Rightarrow> Some (AString []) | Some x \<Rightarrow> Some x))"
  by (simp add: initData_def Let_def split: option.splits)

lemma initData_Errors:
  "initData d ''Errors'' =
     (case d of None \<Rightarrow> Some (AStringMap Map.empty)
      | Some m \<Rightarrow> (case m ''Errors'' of None \<Rightarrow> Some (AStringMap Map.empty) | Some x \<Rightarrow> Some x))"
  by (simp add: initData_def Let_def split: option.splits)

subsection \<open>Walks of \<open>Init\<close>\<close>















subsection \<open>Unfolding the sample inputs\<close>

lemmas fixture_defs = testStore_def testView_def testRequest_def testResponse_def NewResponse_def
  NewRecorder_def mockViewAdapter_def Path_def Layout_def HTTPHeader_def Header_Get_def
  Response_Header_def

lemmas site_defs = siteAdapter_def siteFS_def testEngine_def testRequest_def testResponse_def
  NewResponse_def Path_def Layout_def Response_Status_def Response_Header_def RootFSID_def
  LayoutsDir_def ViewsDir_def SystemDir_def viewsPath_def

lemma siteAdapter_Init:
  "TemplateAdapter_Init testEngine [RootFSID] [RootFSID]
     (NewTemplateViewAdapter ''.tmpl'' [RootFSID \<mapsto> siteFS])
     = (siteAdapter, Returns None)"
  by (simp add: TemplateAdapter_Init_def NewTemplateViewAdapter_def loadPartials_def siteFS_def
      siteAdapter_def testEngine_def PartialsDir_def ViewsDir_def filepath_Ext_def
      filepath_Rel_def pageName_of_def strings_TrimSuffix_def suffix_to_prefix RootFSID_def
      Let_def)

section \<open>Dispatch by extension and content type\<close>

text \<open>
  Claim C1, as amended. \<open>HyperView.Render\<close> selects the adapter as follows. If the
  response carries the header \<^verbatim>\<open>Content-Type: application/json\<close>, the key is
  \<^verbatim>\<open>json\<close>. Otherwise a template path that contains no dot selects \<^verbatim>\<open>html\<close>, and a
  path \<open>b.e\<close> whose last dot stands in its last element (\<open>e\<close> has neither a dot nor a
  slash, so \<open>.e\<close> is the extension of the path) selects \<^verbatim>\<open>html\<close> when \<open>e\<close> is \<^verbatim>\<open>html\<close>
  or empty, and the key \<open>e\<close> otherwise; the path handed on is then \<open>b\<close>, the path
  without its extension. The adapter registered under the key is invoked (with the base
  layout when the response has none); when none is registered under it, the client gets
  status 500 with a body that contains \<^verbatim>\<open>Adapter not found\<close>. Nothing is said here of
  a path whose last dot stands in a directory name.
\<close>

theorem C1_dispatch_selection:
  "(CHR ''.'' \<notin> set (templatePath resp) \<longrightarrow>
      HyperView_Render h s w r resp =
        RenderAs h s w r
          (if Header_Get (HTTPHeader resp) ''Content-Type'' = ''application/json''
           then ''json'' else ''html'') resp)
   \<and> (\<forall>b e. templatePath resp = b @ ''.'' @ e \<and> CHR ''.'' \<notin> set e \<and> CHR ''/'' \<notin> set e
        \<longrightarrow>
      filepath_Ext (templatePath resp) = ''.'' @ e \<and>
      HyperView_Render h s w r resp =
        RenderAs h s w r
          (if Header_Get (HTTPHeader resp) ''Content-Type'' = ''application/json''
           then ''json'' else if e = ''html'' \<or> e = [] then ''html'' else e) (Path resp b))
   \<and> (\<forall>key resp'. key \<noteq> [] \<longrightarrow>
      RenderAs h s w r key resp' =
        (case adapters s key of
           None \<Rightarrow> (h, http_Error w ''Adapter not found'' StatusInternalServerError, resp')
         | Some p \<Rightarrow>
             (case Render (methods (h p)) (state (h p)) w r
                     (if templateLayout resp' = [] then Layout resp' (baseLayout s) else resp') of
                (st, w', resp'') \<Rightarrow> (h(p := (h p)\<lparr>state := st\<rparr>), w', resp''))))
   \<and> (\<forall>key resp'. key \<noteq> [] \<and> adapters s key = None \<and> status w = None \<longrightarrow>
      status (fst (snd (RenderAs h s w r key resp'))) = Some 500
      \<and> strings_Contains (body (fst (snd (RenderAs h s w r key resp')))) ''Adapter not found'')"
proof -
  have a: "CHR ''.'' \<notin> set (templatePath resp) \<longrightarrow>
      HyperView_Render h s w r resp =
        RenderAs h s w r
          (if Header_Get (HTTPHeader resp) ''Content-Type'' = ''application/json''
           then ''json'' else ''html'') resp"
    using Render_no_dot [of resp h s w r] by blast
  have empty_key: "\<And>x. RenderAs h s w r [] x = RenderAs h s w r ''html'' x"
    by (simp add: RenderAs_unfold)
  have b: "\<forall>b e. templatePath resp = b @ ''.'' @ e \<and> CHR ''.'' \<notin> set e \<and> CHR ''/'' \<notin> set e
        \<longrightarrow>
      filepath_Ext (templatePath resp) = ''.'' @ e \<and>
      HyperView_Render h s w r resp =
        RenderAs h s w r
          (if Header_Get (HTTPHeader resp) ''Content-Type'' = ''application/json''
           then ''json'' else if e = ''html'' \<or> e = [] then ''html'' else e) (Path resp b)"
  proof (intro allI impI)
    fix b e
    assume h: "templatePath resp = b @ ''.'' @ e \<and> CHR ''.'' \<notin> set e \<and> CHR ''/'' \<notin> set e"
    then have ext: "filepath_Ext (templatePath resp) = ''.'' @ e"
      using filepath_Ext_last_element [of e b] by simp
    from h have "HyperView_Render h s w r resp =
           RenderAs h s w r
             (if Header_Get (HTTPHeader resp) ''Content-Type'' = ''application/json''
              then ''json'' else if e = ''html'' then ''html'' else e) (Path resp b)"
      using Render_dot [of resp b e h s w r] by blast
    then show "filepath_Ext (templatePath resp) = ''.'' @ e \<and>
      HyperView_Render h s w r resp =
        RenderAs h s w r
          (if Header_Get (HTTPHeader resp) ''Content-Type'' = ''application/json''
           then ''json'' else if e = ''html'' \<or> e = [] then ''html'' else e) (Path resp b)"
      using ext by (simp add: empty_key)
  qed
  have c: "\<forall>key resp'. key \<noteq> [] \<longrightarrow>
      RenderAs h s w r key resp' =
        (case adapters s key of
           None \<Rightarrow> (h, http_Error w ''Adapter not found'' StatusInternalServerError, resp')
         | Some p \<Rightarrow>
             (case Render (methods (h p)) (state (h p)) w r
                     (if templateLayout resp' = [] then Layout resp' (baseLayout s) else resp') of
                (st, w', resp'') \<Rightarrow> (h(p := (h p)\<lparr>state := st\<rparr>), w', resp'')))"
    by (simp add: RenderAs_unfold)
  have mid: "\<And>x. strings_Contains (body x @ ''Adapter not found'' @ [CHR 0x0A]) ''Adapter not found''"
    by (rule strings_Contains_mid)
  have d: "\<forall>key resp'. key \<noteq> [] \<and> adapters s key = None \<and> status w = None \<longrightarrow>
      status (fst (snd (RenderAs h s w r key resp'))) = Some 500
      \<and> strings_Contains (body (fst (snd (RenderAs h s w r key resp')))) ''Adapter not found''"
    using mid [of w]
    by (simp add: RenderAs_unfold status_http_Error body_http_Error StatusInternalServerError_def)
  show ?thesis using a b c d by blast
qed

text \<open>
  The rows of \<^verbatim>\<open>TestViewService_Render\<close>: \<^verbatim>\<open>sample.html\<close> and \<^verbatim>\<open>sample\<close> reach the HTML
  mock, \<^verbatim>\<open>sample.json\<close> and a response with the JSON content type reach the JSON mock,
  and \<^verbatim>\<open>sample.pdf\<close> gives the 500.
\<close>

theorem C1_dispatch_selection_witness:
  "state (fst (HyperView_Render testStore testView NewRecorder testRequest
                 (Path testResponse ''sample.html'')) 1)
   \<and> templatePath (snd (snd (HyperView_Render testStore testView NewRecorder testRequest
                 (Path testResponse ''sample.html'')))) = ''sample''
   \<and> state (fst (HyperView_Render testStore testView NewRecorder testRequest
                 (Path testResponse ''sample'')) 1)
   \<and> state (fst (HyperView_Render testStore testView NewRecorder testRequest
                 (Path testResponse ''sample.json'')) 2)
   \<and> state (fst (HyperView_Render testStore testView NewRecorder testRequest
                 (Response_Header (Path testResponse ''sample'')
                    ''Content-Type'' ''application/json'')) 2)
   \<and> status (fst (snd (HyperView_Render testStore testView NewRecorder testRequest
                 (Path testResponse ''sample.pdf'')))) = Some 500
   \<and> strings_Contains (body (fst (snd (HyperView_Render testStore testView NewRecorder
                 testRequest (Path testResponse ''sample.pdf''))))) ''Adapter not found''"
proof -
  note t = C1_dispatch_selection [of _ testStore testView NewRecorder testRequest]
  have nodot: "\<And>resp. CHR ''.'' \<notin> set (templatePath resp) \<Longrightarrow>
      HyperView_Render testStore testView NewRecorder testRequest resp =
        RenderAs testStore testView NewRecorder testRequest
          (if Header_Get (HTTPHeader resp) ''Content-Type'' = ''application/json''
           then ''json'' else ''html'') resp"
    using t by blast
  have dot: "\<And>resp b e. templatePath resp = b @ ''.'' @ e \<Longrightarrow> CHR ''.'' \<notin> set e \<Longrightarrow>
      CHR ''/'' \<notin> set e \<Longrightarrow>
      HyperView_Render testStore testView NewRecorder testRequest resp =
        RenderAs testStore testView NewRecorder testRequest
          (if Header_Get (HTTPHeader resp) ''Content-Type'' = ''application/json''
           then ''json'' else if e = ''html'' \<or> e = [] then ''html'' else e) (Path resp b)"
    using t by blast
  have as: "\<And>key resp'. key \<noteq> [] \<Longrightarrow>
      RenderAs testStore testView NewRecorder testRequest key resp' =
        (case adapters testView key of
           None \<Rightarrow> (testStore,
                     http_Error NewRecorder ''Adapter not found'' StatusInternalServerError, resp')
         | Some p \<Rightarrow>
             (case Render (methods (testStore p)) (state (testStore p)) NewRecorder testRequest
                     (if templateLayout resp' = [] then Layout resp' (baseLayout testView)
                      else resp') of
                (st, w', resp'') \<Rightarrow>
                  (testStore(p := (testStore p)\<lparr>state := st\<rparr>), w', resp'')))"
    using t by blast
  have fresh: "status NewRecorder = None"
    by (simp add: NewRecorder_def)
  have missing: "\<And>key resp'. key \<noteq> [] \<Longrightarrow> adapters testView key = None \<Longrightarrow>
      status (fst (snd (RenderAs testStore testView NewRecorder testRequest key resp'))) = Some 500
      \<and> strings_Contains
          (body (fst (snd (RenderAs testStore testView NewRecorder testRequest key resp'))))
          ''Adapter not found''"
    using t fresh by blast
  have r1: "HyperView_Render testStore testView NewRecorder testRequest
              (Path testResponse ''sample.html'')
            = RenderAs testStore testView NewRecorder testRequest ''html''
                (Path testResponse ''sample'')"
    using dot [of "Path testResponse ''sample.html''" "''sample''" "''html''"]
    by (simp add: fixture_defs)
  have r2: "HyperView_Render testStore testView NewRecorder testRequest
              (Path testResponse ''sample'')
            = RenderAs testStore testView NewRecorder testRequest ''html''
                (Path testResponse ''sample'')"
    using nodot [of "Path testResponse ''sample''"]
    by (simp add: fixture_defs)
  have r3: "HyperView_Render testStore testView NewRecorder testRequest
              (Path testResponse ''sample.json'')
            = RenderAs testStore testView NewRecorder testRequest ''json''
                (Path testResponse ''sample'')"
    using dot [of "Path testResponse ''sample.json''" "''sample''" "''json''"]
    by (simp add: fixture_defs)
  have r4: "HyperView_Render testStore testView NewRecorder testRequest
              (Response_Header (Path testResponse ''sample'') ''Content-Type'' ''application/json'')
            = RenderAs testStore testView NewRecorder testRequest ''json''
                (Response_Header (Path testResponse ''sample'') ''Content-Type''
                   ''application/json'')"
    using nodot [of "Response_Header (Path testResponse ''sample'') ''Content-Type''
                   ''application/json''"]
    by (simp add: fixture_defs)
  have r5: "HyperView_Render testStore testView NewRecorder testRequest
              (Path testResponse ''sample.pdf'')
            = RenderAs testStore testView NewRecorder testRequest ''pdf''
                (Path testResponse ''sample'')"
    using dot [of "Path testResponse ''sample.pdf''" "''sample''" "''pdf''"]
    by (simp add: fixture_defs)
  have html: "RenderAs testStore testView NewRecorder testRequest ''html''
                (Path testResponse ''sample'')
              = (testStore(1 := (testStore 1)\<lparr>state := True\<rparr>), NewRecorder,
                 Layout (Path testResponse ''sample'') ''base'')"
    using as [of "''html''" "Path testResponse ''sample''"]
    by (simp add: fixture_defs)
  have json: "\<And>x. fst (RenderAs testStore testView NewRecorder testRequest ''json'' x)
              = testStore(2 := (testStore 2)\<lparr>state := True\<rparr>)"
    using as [of "''json''"]
    by (simp add: fixture_defs)
  have pdf: "adapters testView ''pdf'' = None"
    by (simp add: testView_def)
  have tp: "templatePath (Layout (Path testResponse ''sample'') ''base'') = ''sample''"
    by (simp add: Layout_def Path_def)
  show ?thesis
    using missing [of "''pdf''" "Path testResponse ''sample''", OF _ pdf]
    by (simp add: r1 r2 r3 r4 r5 html json tp)
qed

text \<open>
  Claim C1 as first stated lets every non-empty extension other than \<^verbatim>\<open>.html\<close> select
  the adapter registered under the extension without its dot, promises a 500 when there
  is none, and lets a path with no extension select the HTML adapter. For the path
  \<^verbatim>\<open>sample.\<close> the extension is the bare dot and its name is empty; no adapter is
  registered under the empty name, yet no 500 is written and the HTML mock is called,
  because \<open>adapterFor\<close> reads the empty key as \<^verbatim>\<open>html\<close>. The path \<^verbatim>\<open>v1.2/sample\<close> has no
  extension, yet \<open>Render\<close> cuts it at the dot of the directory name: the path becomes
  \<^verbatim>\<open>v1\<close>, no adapter is called and the client gets the 500.
\<close>

theorem C1_extension_counterexample:
  "drop (nat (strings_LastIndex ''sample.'' ''.'')) ''sample.'' = ''.''
   \<and> adapters testView (drop 1 ''.'') = None
   \<and> status (fst (snd (HyperView_Render testStore testView NewRecorder testRequest
                 (Path testResponse ''sample.'')))) = None
   \<and> body (fst (snd (HyperView_Render testStore testView NewRecorder testRequest
                 (Path testResponse ''sample.'')))) = []
   \<and> state (fst (HyperView_Render testStore testView NewRecorder testRequest
                 (Path testResponse ''sample.'')) 1)
   \<and> filepath_Ext ''v1.2/sample'' = []
   \<and> status (fst (snd (HyperView_Render testStore testView NewRecorder testRequest
                 (Path testResponse ''v1.2/sample'')))) = Some 500
   \<and> body (fst (snd (HyperView_Render testStore testView NewRecorder testRequest
                 (Path testResponse ''v1.2/sample'')))) = ''Adapter not found'' @ [CHR 0x0A]
   \<and> templatePath (snd (snd (HyperView_Render testStore testView NewRecorder testRequest
                 (Path testResponse ''v1.2/sample'')))) = ''v1''
   \<and> \<not> state (fst (HyperView_Render testStore testView NewRecorder testRequest
                 (Path testResponse ''v1.2/sample'')) 1)"
  by (simp add: HyperView_Render_def RenderAs_def adapterFor_def Adapter_def
      strings_LastIndex_def filepath_Ext_def Let_def fixture_defs status_http_Error
      body_http_Error)

section \<open>Rendering templates\<close>

text \<open>
  Claim C2 says that a template whose execution fails makes the adapter render the
  configured system error page, and that only a failure of that page itself falls back
  to a plain-text 500. The adapter does the second for every template: with the system
  error page \<^verbatim>\<open>views/system/500\<close> in the registry, the failing page \<^verbatim>\<open>views/home\<close> is
  answered by \<^verbatim>\<open>http.Error\<close> with the text of the error, not by the page that
  \<open>RenderSystemError\<close> would have rendered for the same error.
\<close>

theorem C2_exec_failure_plain_500:
  "templates siteAdapter (viewsPath [SystemDir, ''500'']) = Some [''<nav/>'', ''<h1>error</h1>'']
   \<and> TemplateAdapter_Render testEngine (\<lambda>r resp. ()) siteAdapter NewRecorder testRequest
         (Layout (Path testResponse ''views/home'') ''base'')
       = http_Error NewRecorder ''error executing template: template: no template defined''
           StatusInternalServerError
   \<and> body (TemplateAdapter_Render testEngine (\<lambda>r resp. ()) siteAdapter NewRecorder testRequest
         (Layout (Path testResponse ''views/home'') ''base''))
       = ''error executing template: template: no template defined'' @ [CHR 0x0A]
   \<and> body (TemplateAdapter_RenderSystemError testEngine (\<lambda>r resp. ()) ''trace'' siteAdapter
         NewRecorder testRequest (Errorf ''template: no template defined'')
         (Layout (Path testResponse ''views/home'') ''base''))
       = ''<nav/><h1>error</h1><html>''"
  by (simp add: TemplateAdapter_Render_def TemplateAdapter_RenderSystemError_def getTemplate_def
      execTemplate_def handleError_def body_http_Error Errors_def StatusError_def
      StatusInternalServerError_def WriteHeader_def WriteHeader_panics_def
      checkWriteHeaderCode_def Write_def NewRecorder_def Let_def site_defs)

text \<open>
  Claim C3. The template is executed into a buffer before anything is written. When
  the execution fails, the writer receives exactly what \<^verbatim>\<open>http.Error\<close> writes for the
  error: status 500 and the error text, and none of the bytes the template had produced,
  none of the custom headers and no other status. When it succeeds, the custom headers
  of the response are set, then its status code is written, then the buffer; if the
  writer has sent no status yet and refuses the status code of the response (a code
  outside 100 to 999, such as an unset 0), the call ends in its panic with no status and
  no byte of the page sent.
\<close>

theorem C3_buffered_write:
  "getTemplate eng a resp = Inr tmpl \<Longrightarrow>
   (\<forall>buf err. ExecuteTemplate eng tmpl ''layout'' (vd r resp) = (buf, Some err) \<longrightarrow>
        TemplateAdapter_Render eng vd a w r resp
          = http_Error w (''error executing template: '' @ Error err) StatusInternalServerError
        \<and> body (TemplateAdapter_Render eng vd a w r resp)
            = body w @ ''error executing template: '' @ Error err @ [CHR 0x0A]
        \<and> (status w = None \<longrightarrow> status (TemplateAdapter_Render eng vd a w r resp) = Some 500))
   \<and> (\<forall>buf. ExecuteTemplate eng tmpl ''layout'' (vd r resp) = (buf, None) \<longrightarrow>
        (status w \<noteq> None \<or> checkWriteHeaderCode (statusCode resp) \<longrightarrow>
           body (TemplateAdapter_Render eng vd a w r resp) = body w @ buf)
        \<and> (status w = None \<and> checkWriteHeaderCode (statusCode resp) \<longrightarrow>
              status (TemplateAdapter_Render eng vd a w r resp) = Some (statusCode resp)
              \<and> (\<forall>k v. headers resp k = Some v \<longrightarrow>
                    sentHeader (TemplateAdapter_Render eng vd a w r resp) k = Some [v]))
        \<and> (status w = None \<and> \<not> checkWriteHeaderCode (statusCode resp) \<longrightarrow>
              panicked (TemplateAdapter_Render eng vd a w r resp)
              \<and> status (TemplateAdapter_Render eng vd a w r resp) = None
              \<and> body (TemplateAdapter_Render eng vd a w r resp) = body w))"
  by (auto simp: TemplateAdapter_Render_def execTemplate_def handleError_def Let_def
      body_http_Error status_http_Error WriteHeader_def WriteHeader_panics_def Write_def
      split: option.splits)

text \<open>
  The page \<^verbatim>\<open>views/home\<close> fails after it has produced \<^verbatim>\<open><html>\<close>: the client gets the
  500 and the error text. The page \<^verbatim>\<open>views/about\<close> succeeds: with status 200, the status,
  the header and the body arrive; with the status left unset, the writer panics.
\<close>

theorem C3_buffered_write_witness:
  "getTemplate testEngine siteAdapter (Layout (Path testResponse ''views/home'') ''base'')
     = Inr [''<nav/>'', ''FAIL'', ''<html>'']
   \<and> ExecuteTemplate testEngine [''<nav/>'', ''FAIL'', ''<html>''] ''layout'' ()
     = (''<html>'', Some (Errorf ''template: no template defined''))
   \<and> status (TemplateAdapter_Render testEngine (\<lambda>r resp. ()) siteAdapter NewRecorder testRequest
               (Layout (Path testResponse ''views/home'') ''base'')) = Some 500
   \<and> body (TemplateAdapter_Render testEngine (\<lambda>r resp. ()) siteAdapter NewRecorder testRequest
               (Layout (Path testResponse ''views/home'') ''base''))
       = ''error executing template: template: no template defined'' @ [CHR 0x0A]
   \<and> status (TemplateAdapter_Render testEngine (\<lambda>r resp. ()) siteAdapter NewRecorder testRequest
               (Response_Header (Response_Status
                  (Layout (Path testResponse ''views/about'') ''base'') 200) ''ETag'' ''v1''))
       = Some 200
   \<and> body (TemplateAdapter_Render testEngine (\<lambda>r resp. ()) siteAdapter NewRecorder testRequest
               (Response_Header (Response_Status
                  (Layout (Path testResponse ''views/about'') ''base'') 200) ''ETag'' ''v1''))
       = ''<nav/><p>about</p><html>''
   \<and> sentHeader (TemplateAdapter_Render testEngine (\<lambda>r resp. ()) siteAdapter NewRecorder
               testRequest
               (Response_Header (Response_Status
                  (Layout (Path testResponse ''views/about'') ''base'') 200) ''ETag'' ''v1''))
          ''ETag'' = Some [''v1'']
   \<and> panicked (TemplateAdapter_Render testEngine (\<lambda>r resp. ()) siteAdapter NewRecorder
               testRequest (Layout (Path testResponse ''views/about'') ''base''))
   \<and> status (TemplateAdapter_Render testEngine (\<lambda>r resp. ()) siteAdapter NewRecorder
               testRequest (Layout (Path testResponse ''views/about'') ''base'')) = None
   \<and> body (TemplateAdapter_Render testEngine (\<lambda>r resp. ()) siteAdapter NewRecorder
               testRequest (Layout (Path testResponse ''views/about'') ''base'')) = []"
proof -
  have g1: "getTemplate testEngine siteAdapter (Layout (Path testResponse ''views/home'') ''base'')
     = Inr [''<nav/>'', ''FAIL'', ''<html>'']"
    by (simp add: getTemplate_def site_defs)
  have e1: "ExecuteTemplate testEngine [''<nav/>'', ''FAIL'', ''<html>''] ''layout'' ()
     = (''<html>'', Some (Errorf ''template: no template defined''))"
    by (simp add: testEngine_def)
  have g2: "getTemplate testEngine siteAdapter
              (Response_Header (Response_Status
                  (Layout (Path testResponse ''views/about'') ''base'') 200) ''ETag'' ''v1'')
     = Inr [''<nav/>'', ''<p>about</p>'', ''<html>'']"
    by (simp add: getTemplate_def site_defs)
  have e2: "ExecuteTemplate testEngine [''<nav/>'', ''<p>about</p>'', ''<html>''] ''layout'' ()
     = (''<nav/><p>about</p><html>'', None)"
    by (simp add: testEngine_def)
  have fresh: "status NewRecorder = None" "body NewRecorder = []"
    by (simp_all add: NewRecorder_def)
  have f2: "statusCode (Response_Header (Response_Status
                  (Layout (Path testResponse ''views/about'') ''base'') 200) ''ETag'' ''v1'') = 200"
    "headers (Response_Header (Response_Status
                  (Layout (Path testResponse ''views/about'') ''base'') 200) ''ETag'' ''v1'') ''ETag''
       = Some ''v1''"
    by (simp_all add: site_defs)
  note t1 = C3_buffered_write [OF g1, of "\<lambda>r resp. ()" testRequest NewRecorder,
      THEN conjunct1, rule_format, OF e1]
  note t2 = C3_buffered_write [OF g2, of "\<lambda>r resp. ()" testRequest NewRecorder,
      THEN conjunct2, rule_format, OF e2]
  from t1 fresh
  have st1: "status (TemplateAdapter_Render testEngine (\<lambda>r resp. ()) siteAdapter NewRecorder
               testRequest (Layout (Path testResponse ''views/home'') ''base'')) = Some 500"
    by blast
  from t1
  have bd1: "body (TemplateAdapter_Render testEngine (\<lambda>r resp. ()) siteAdapter NewRecorder
               testRequest (Layout (Path testResponse ''views/home'') ''base''))
             = body NewRecorder @ ''error executing template: ''
                 @ Error (Errorf ''template: no template defined'') @ [CHR 0x0A]"
    by blast
  have g3: "getTemplate testEngine siteAdapter (Layout (Path testResponse ''views/about'') ''base'')
     = Inr [''<nav/>'', ''<p>about</p>'', ''<html>'']"
    by (simp add: getTemplate_def site_defs)
  have f3: "\<not> checkWriteHeaderCode
               (statusCode (Layout (Path testResponse ''views/about'') ''base''))"
    by (simp add: site_defs checkWriteHeaderCode_def)
  note t3 = C3_buffered_write [OF g3, of "\<lambda>r resp. ()" testRequest NewRecorder,
      THEN conjunct2, rule_format, OF e2]
  from t3 fresh f3
  have p3: "panicked (TemplateAdapter_Render testEngine (\<lambda>r resp. ()) siteAdapter NewRecorder
               testRequest (Layout (Path testResponse ''views/about'') ''base''))
     \<and> status (TemplateAdapter_Render testEngine (\<lambda>r resp. ()) siteAdapter NewRecorder
               testRequest (Layout (Path testResponse ''views/about'') ''base'')) = None
     \<and> body (TemplateAdapter_Render testEngine (\<lambda>r resp. ()) siteAdapter NewRecorder
               testRequest (Layout (Path testResponse ''views/about'') ''base''))
         = body NewRecorder"
    by blast
  have v2: "checkWriteHeaderCode 200" by (simp add: checkWriteHeaderCode_def)
  from t2 fresh f2 v2
  have st2: "status (TemplateAdapter_Render testEngine (\<lambda>r resp. ()) siteAdapter NewRecorder
               testRequest (Response_Header (Response_Status
                  (Layout (Path testResponse ''views/about'') ''base'') 200) ''ETag'' ''v1''))
             = Some 200"
    by simp
  from t2 f2 v2
  have bd2: "body (TemplateAdapter_Render testEngine (\<lambda>r resp. ()) siteAdapter NewRecorder
               testRequest (Response_Header (Response_Status
                  (Layout (Path testResponse ''views/about'') ''base'') 200) ''ETag'' ''v1''))
             = body NewRecorder @ ''<nav/><p>about</p><html>''"
    by simp
  from t2 fresh f2 v2
  have hd2: "sentHeader (TemplateAdapter_Render testEngine (\<lambda>r resp. ()) siteAdapter NewRecorder
               testRequest (Response_Header (Response_Status
                  (Layout (Path testResponse ''views/about'') ''base'') 200) ''ETag'' ''v1''))
               ''ETag'' = Some [''v1'']"
    by simp
  show ?thesis
    using g1 e1 st1 bd1 st2 bd2 hd2 p3 by (simp add: fresh)
qed

text \<open>
  Claim C5. When the template path of the response is not a key of the registry,
  \<open>getTemplate\<close> fails with the error \<^verbatim>\<open>template not found: <path>\<close>, and \<open>Render\<close> answers
  with \<^verbatim>\<open>http.Error\<close>: status 500 and that text. \<open>Render\<close> does not write status 200.
\<close>

theorem C5_template_not_found:
  "templates a (templatePath resp) = None \<Longrightarrow>
     getTemplate eng a resp = Inl (Errorf (''template not found: '' @ templatePath resp))
     \<and> TemplateAdapter_Render eng vd a w r resp
         = http_Error w (''template not found: '' @ templatePath resp) StatusInternalServerError
     \<and> body (TemplateAdapter_Render eng vd a w r resp)
         = body w @ ''template not found: '' @ templatePath resp @ [CHR 0x0A]
     \<and> strings_Contains (body (TemplateAdapter_Render eng vd a w r resp)) ''template not found''
     \<and> (status w = None \<longrightarrow> status (TemplateAdapter_Render eng vd a w r resp) = Some 500)
     \<and> (status w \<noteq> Some StatusOK
          \<longrightarrow> status (TemplateAdapter_Render eng vd a w r resp) \<noteq> Some StatusOK)"
proof -
  assume nf: "templates a (templatePath resp) = None"
  have g: "getTemplate eng a resp = Inl (Errorf (''template not found: '' @ templatePath resp))"
    using nf by (simp add: getTemplate_def)
  have r: "TemplateAdapter_Render eng vd a w r resp
         = http_Error w (''template not found: '' @ templatePath resp) StatusInternalServerError"
    by (simp add: TemplateAdapter_Render_def g handleError_def)
  have c: "strings_Contains (body w @ ''template not found'' @ ('': '' @ templatePath resp @ [CHR 0x0A]))
      ''template not found''"
    by (rule strings_Contains_mid)
  show ?thesis
    using g r c
    by (auto simp: body_http_Error status_http_Error StatusInternalServerError_def StatusOK_def
        split: option.splits)
qed

text \<open>
  The page \<^verbatim>\<open>views/missing\<close> is not in the registry of the sample adapter.
\<close>

theorem C5_template_not_found_witness:
  "templates siteAdapter ''views/missing'' = None
   \<and> status (TemplateAdapter_Render testEngine (\<lambda>r resp. ()) siteAdapter NewRecorder testRequest
               (Path testResponse ''views/missing'')) = Some 500
   \<and> body (TemplateAdapter_Render testEngine (\<lambda>r resp. ()) siteAdapter NewRecorder testRequest
               (Path testResponse ''views/missing''))
       = ''template not found: views/missing'' @ [CHR 0x0A]"
proof -
  have tp: "templatePath (Path testResponse ''views/missing'') = ''views/missing''"
    by (simp add: Path_def)
  have nf: "templates siteAdapter (templatePath (Path testResponse ''views/missing'')) = None"
    by (simp add: siteAdapter_def tp)
  have fresh: "status NewRecorder = None" and empty: "body NewRecorder = []"
    by (simp_all add: NewRecorder_def)
  note t = C5_template_not_found [OF nf, of testEngine "\<lambda>r resp. ()" NewRecorder testRequest]
  from t fresh
  have st: "status (TemplateAdapter_Render testEngine (\<lambda>r resp. ()) siteAdapter NewRecorder
              testRequest (Path testResponse ''views/missing'')) = Some 500"
    by blast
  from t
  have bd: "body (TemplateAdapter_Render testEngine (\<lambda>r resp. ()) siteAdapter NewRecorder
              testRequest (Path testResponse ''views/missing''))
            = body NewRecorder @ ''template not found: ''
                @ templatePath (Path testResponse ''views/missing'') @ [CHR 0x0A]"
    by blast
  show ?thesis
    using nf st bd by (simp add: tp empty)
qed

section \<open>The JSON adapter\<close>

text \<open>
  Claim C4, as amended. Let \<open>st\<close> be the status code of the response, or 200 when that
  is 0. The JSON adapter encodes the envelope with code \<open>st\<close> and the view data as
  payload, tagged \<^verbatim>\<open>fail\<close> when \<open>st\<close> exceeds 299 and \<^verbatim>\<open>success\<close> otherwise; when the
  encoding fails it renders the system error instead. On a writer that has sent nothing,
  the encoded envelope is written with HTTP status \<open>st\<close> when \<open>st\<close> lies between 100 and
  999: status 0 gives \<^verbatim>\<open>success\<close> with 200, a status from 300 to 999 gives \<^verbatim>\<open>fail\<close> with
  that status in both places, and a status from 100 to 299 gives \<^verbatim>\<open>success\<close> with that
  status. For any other \<open>st\<close> the writer refuses the code: the call ends in its panic, and
  neither a status nor a byte of the envelope is sent.
\<close>

theorem C4_json_status_routing:
  fixes resp :: "'v Response"
  assumes st: "st = (if statusCode resp = 0 then 200 else statusCode resp)"
    and env: "env = \<lparr>Status = (if st > 299 then ''fail'' else ''success''),
                    Message = (if st > 299 then ''Failure'' else ''Success''),
                    Data = Some (vd r (Response_Status resp st)), Code = st\<rparr>"
  shows "JSONAdapter_Render marshal vd w r resp =
           (case marshal env of
              Inl err \<Rightarrow> (JSONAdapter_RenderSystemError marshal w r err (Response_Status resp st),
                           Response_Status resp st)
            | Inr js \<Rightarrow>
                (if WriteHeader_panics w st
                 then (w\<lparr>header := Header_Set (header w ++ HTTPHeader resp)
                           ''Content-Type'' ''application/json; charset=UTF-8'',
                         panicked := True\<rparr>,
                       Response_Status resp st)
                 else (Write (WriteHeader (w\<lparr>header := Header_Set (header w ++ HTTPHeader resp)
                           ''Content-Type'' ''application/json; charset=UTF-8''\<rparr>) st)
                         (js @ [CHR 0x0A]),
                       Response_Status resp st)))
         \<and> (\<forall>js. marshal env = Inr js \<and> status w = None \<and> 100 \<le> st \<and> st \<le> 999 \<longrightarrow>
               status (fst (JSONAdapter_Render marshal vd w r resp)) = Some (Code env)
               \<and> body (fst (JSONAdapter_Render marshal vd w r resp)) = body w @ js @ [CHR 0x0A])
         \<and> (\<forall>js. marshal env = Inr js \<and> status w = None \<and> (st < 100 \<or> 999 < st) \<longrightarrow>
               panicked (fst (JSONAdapter_Render marshal vd w r resp))
               \<and> status (fst (JSONAdapter_Render marshal vd w r resp)) = None
               \<and> body (fst (JSONAdapter_Render marshal vd w r resp)) = body w)
         \<and> (statusCode resp = 0 \<longrightarrow> Status env = ''success'' \<and> Code env = 200)
         \<and> (statusCode resp > 299 \<longrightarrow> Status env = ''fail'' \<and> Code env = statusCode resp
               \<and> Data env = Some (vd r resp))
         \<and> (statusCode resp \<noteq> 0 \<and> statusCode resp \<le> 299 \<longrightarrow>
               Status env = ''success'' \<and> Code env = statusCode resp
               \<and> Data env = Some (vd r resp))"
proof -
  have hh: "HTTPHeader (Response_Status resp st) = HTTPHeader resp"
    by (simp add: HTTPHeader_def Response_Status_def)
  have eq: "JSONAdapter_Render marshal vd w r resp =
           (case marshal env of
              Inl err \<Rightarrow> (JSONAdapter_RenderSystemError marshal w r err (Response_Status resp st),
                           Response_Status resp st)
            | Inr js \<Rightarrow>
                (if WriteHeader_panics w st
                 then (w\<lparr>header := Header_Set (header w ++ HTTPHeader resp)
                           ''Content-Type'' ''application/json; charset=UTF-8'',
                         panicked := True\<rparr>,
                       Response_Status resp st)
                 else (Write (WriteHeader (w\<lparr>header := Header_Set (header w ++ HTTPHeader resp)
                           ''Content-Type'' ''application/json; charset=UTF-8''\<rparr>) st)
                         (js @ [CHR 0x0A]),
                       Response_Status resp st)))"
  proof (cases "statusCode resp = 0")
    case True
    then have s: "st = 200" using st by simp
    have sc: "statusCode (Response_Status resp 200) = 200" by (simp add: Response_Status_def)
    show ?thesis
      using True hh
      by (simp add: JSONAdapter_Render_def Let_def env s sc StatusOK_def JSONSuccessWithStatus_def
          JSONWithHeaders_one split: sum.splits)
  next
    case False
    then have s: "st = statusCode resp" using st by simp
    show ?thesis
      using False
      by (simp add: JSONAdapter_Render_def Let_def env s Response_Status_same
          JSONSuccessWithStatus_def JSONFailure_def JSONWithHeaders_one split: sum.splits)
  qed
  have st0: "statusCode resp = 0 \<longrightarrow> Status env = ''success'' \<and> Code env = 200"
    using st by (simp add: env)
  have st3: "statusCode resp > 299 \<longrightarrow> Status env = ''fail'' \<and> Code env = statusCode resp
               \<and> Data env = Some (vd r resp)"
    using st by (simp add: env Response_Status_same)
  have st1: "statusCode resp \<noteq> 0 \<and> statusCode resp \<le> 299 \<longrightarrow>
               Status env = ''success'' \<and> Code env = statusCode resp
               \<and> Data env = Some (vd r resp)"
    using st by (simp add: env Response_Status_same)
  have wr: "\<forall>js. marshal env = Inr js \<and> status w = None \<and> 100 \<le> st \<and> st \<le> 999 \<longrightarrow>
               status (fst (JSONAdapter_Render marshal vd w r resp)) = Some (Code env)
               \<and> body (fst (JSONAdapter_Render marshal vd w r resp)) = body w @ js @ [CHR 0x0A]"
    by (simp add: eq WriteHeader_def WriteHeader_panics_def checkWriteHeaderCode_def Write_def env)
  have pn: "\<forall>js. marshal env = Inr js \<and> status w = None \<and> (st < 100 \<or> 999 < st) \<longrightarrow>
               panicked (fst (JSONAdapter_Render marshal vd w r resp))
               \<and> status (fst (JSONAdapter_Render marshal vd w r resp)) = None
               \<and> body (fst (JSONAdapter_Render marshal vd w r resp)) = body w"
    by (auto simp: eq WriteHeader_panics_def checkWriteHeaderCode_def)
  show ?thesis using eq st0 st3 st1 wr pn by blast
qed

text \<open>
  Status 0, status 404, status 201, and the refused status 1000.
\<close>

theorem C4_json_status_routing_witness:
  "status (fst (JSONAdapter_Render testMarshal (\<lambda>r resp. ()) NewRecorder testRequest
                  testResponse)) = Some 200
   \<and> body (fst (JSONAdapter_Render testMarshal (\<lambda>r resp. ()) NewRecorder testRequest
                  testResponse)) = ''{success,Success}'' @ [CHR 0x0A]
   \<and> status (fst (JSONAdapter_Render testMarshal (\<lambda>r resp. ()) NewRecorder testRequest
                  (Response_Status testResponse 404))) = Some 404
   \<and> body (fst (JSONAdapter_Render testMarshal (\<lambda>r resp. ()) NewRecorder testRequest
                  (Response_Status testResponse 404))) = ''{fail,Failure}'' @ [CHR 0x0A]
   \<and> status (fst (JSONAdapter_Render testMarshal (\<lambda>r resp. ()) NewRecorder testRequest
                  (Response_Status testResponse 201))) = Some 201
   \<and> body (fst (JSONAdapter_Render testMarshal (\<lambda>r resp. ()) NewRecorder testRequest
                  (Response_Status testResponse 201))) = ''{success,Success}'' @ [CHR 0x0A]
   \<and> panicked (fst (JSONAdapter_Render testMarshal (\<lambda>r resp. ()) NewRecorder testRequest
                  (Response_Status testResponse 1000)))
   \<and> body (fst (JSONAdapter_Render testMarshal (\<lambda>r resp. ()) NewRecorder testRequest
                  (Response_Status testResponse 1000))) = []"
proof -
  have fresh: "status NewRecorder = None" "body NewRecorder = []"
    by (simp_all add: NewRecorder_def)
  have s0: "statusCode testResponse = 0"
    and s404: "statusCode (Response_Status testResponse 404) = 404"
    and s201: "statusCode (Response_Status testResponse 201) = 201"
    and s1000: "statusCode (Response_Status testResponse 1000) = 1000"
    by (simp_all add: testResponse_def NewResponse_def Response_Status_def)
  note a = C4_json_status_routing [of 200 testResponse _ "\<lambda>r resp. ()" testRequest testMarshal
      NewRecorder, OF _ refl, THEN conjunct2, THEN conjunct1]
  note b = C4_json_status_routing [of 404 "Response_Status testResponse 404" _ "\<lambda>r resp. ()"
      testRequest testMarshal NewRecorder, OF _ refl, THEN conjunct2, THEN conjunct1]
  note c = C4_json_status_routing [of 201 "Response_Status testResponse 201" _ "\<lambda>r resp. ()"
      testRequest testMarshal NewRecorder, OF _ refl, THEN conjunct2, THEN conjunct1]
  note d = C4_json_status_routing [of 1000 "Response_Status testResponse 1000" _ "\<lambda>r resp. ()"
      testRequest testMarshal NewRecorder, OF _ refl, THEN conjunct2, THEN conjunct2,
      THEN conjunct1]
  show ?thesis
    using a b c d fresh
    by (simp add: s0 s404 s201 s1000 testMarshal_def)
qed

text \<open>
  Claim C4 as first stated gives every status from 1 to 299 the \<^verbatim>\<open>success\<close> envelope
  with that status, and every status above 299 the \<^verbatim>\<open>fail\<close> envelope with the status as
  the HTTP status of the response. With status 42 and with status 1000 nothing is sent:
  the writer panics on the code.
\<close>

theorem C4_status_out_of_range_counterexample:
  "statusCode (Response_Status testResponse 42) = 42
   \<and> status (fst (JSONAdapter_Render testMarshal (\<lambda>r resp. ()) NewRecorder testRequest
                  (Response_Status testResponse 42))) = None
   \<and> body (fst (JSONAdapter_Render testMarshal (\<lambda>r resp. ()) NewRecorder testRequest
                  (Response_Status testResponse 42))) = []
   \<and> panicked (fst (JSONAdapter_Render testMarshal (\<lambda>r resp. ()) NewRecorder testRequest
                  (Response_Status testResponse 42)))
   \<and> statusCode (Response_Status testResponse 1000) = 1000
   \<and> status (fst (JSONAdapter_Render testMarshal (\<lambda>r resp. ()) NewRecorder testRequest
                  (Response_Status testResponse 1000))) = None
   \<and> body (fst (JSONAdapter_Render testMarshal (\<lambda>r resp. ()) NewRecorder testRequest
                  (Response_Status testResponse 1000))) = []
   \<and> panicked (fst (JSONAdapter_Render testMarshal (\<lambda>r resp. ()) NewRecorder testRequest
                  (Response_Status testResponse 1000)))"
  by (simp add: JSONAdapter_Render_def JSONSuccessWithStatus_def JSONFailure_def
      JSONWithHeaders_one WriteHeader_panics_def checkWriteHeaderCode_def testMarshal_def
      testResponse_def NewResponse_def Response_Status_def NewRecorder_def Let_def)

section \<open>Redirects\<close>

text \<open>
  Claim C6. On a writer that has sent nothing, \<open>Redirect\<close> answers in one of three
  shapes. For an HTMX request that is not boosted: status 303, the header
  \<^verbatim>\<open>HX-Redirect\<close> with the target, and the body \<^verbatim>\<open>redirecting...\<close>. Otherwise, for an
  XMLHttpRequest: status 200, content type \<^verbatim>\<open>application/json\<close>, and the JSON object
  with message \<^verbatim>\<open>redirecting...\<close>, status \<^verbatim>\<open>redirect\<close> and the url. Otherwise: status 302
  with a \<^verbatim>\<open>Location\<close> header.
\<close>

theorem C6_redirect_branching:
  "status w = None \<Longrightarrow>
   (IsHtmxRequest r \<longrightarrow>
      status (Redirect lib w r url) = Some 303
      \<and> Header_Get (sentHeader (Redirect lib w r url)) HXRedirect = url
      \<and> body (Redirect lib w r url) = body w @ ''redirecting...'')
   \<and> (\<not> IsHtmxRequest r \<and> IsXMLHttpRequest r \<longrightarrow>
      status (Redirect lib w r url) = Some 200
      \<and> Header_Get (sentHeader (Redirect lib w r url)) ''Content-Type'' = ''application/json''
      \<and> body (Redirect lib w r url) =
          body w @ ''{'' @ quoted ''message'' @ '':'' @ quoted ''redirecting...''
            @ '','' @ quoted ''status'' @ '':'' @ quoted ''redirect''
            @ '','' @ quoted ''url'' @ '':'' @ jsonString lib url @ ''}'')
   \<and> (\<not> IsHtmxRequest r \<and> \<not> IsXMLHttpRequest r \<longrightarrow>
      status (Redirect lib w r url) = Some 302
      \<and> Header_Get (sentHeader (Redirect lib w r url)) ''Location''
          = hexEscapeNonASCII lib (resolveURL lib r url))"
  by (simp add: Redirect_def HxRedirect_def http_Redirect_def Let_def WriteHeader_def
      WriteHeader_panics_def checkWriteHeaderCode_def Write_def Header_Get_def Header_Set_def
      StatusSeeOther_def StatusOK_def StatusFound_def HXRedirect_def)

text \<open>
  The three rows of \<^verbatim>\<open>TestViewService_Redirect\<close>.
\<close>

theorem C6_redirect_branching_witness:
  "status (Redirect testLib NewRecorder
             (NewRequest ''GET'' ''/'' [(''HX-Request'', ''true'')]) ''https://example.com'')
     = Some 303
   \<and> body (Redirect testLib NewRecorder
             (NewRequest ''GET'' ''/'' [(''HX-Request'', ''true'')]) ''https://example.com'')
     = ''redirecting...''
   \<and> Header_Get (sentHeader (Redirect testLib NewRecorder
             (NewRequest ''GET'' ''/'' [(''HX-Request'', ''true'')]) ''https://example.com''))
         ''HX-Redirect'' = ''https://example.com''
   \<and> status (Redirect testLib NewRecorder
             (NewRequest ''GET'' ''/'' [(''X-Requested-With'', ''XMLHttpRequest'')])
             ''https://example.com'') = Some 200
   \<and> body (Redirect testLib NewRecorder
             (NewRequest ''GET'' ''/'' [(''X-Requested-With'', ''XMLHttpRequest'')])
             ''https://example.com'')
     = ''{'' @ quoted ''message'' @ '':'' @ quoted ''redirecting...''
       @ '','' @ quoted ''status'' @ '':'' @ quoted ''redirect''
       @ '','' @ quoted ''url'' @ '':'' @ quoted ''https://example.com'' @ ''}''
   \<and> status (Redirect testLib NewRecorder (NewRequest ''GET'' ''/'' []) ''https://example.com'')
     = Some 302
   \<and> Header_Get (sentHeader (Redirect testLib NewRecorder (NewRequest ''GET'' ''/'' [])
         ''https://example.com'')) ''Location'' = ''https://example.com''"
proof -
  have fresh: "status NewRecorder = None" by (simp add: NewRecorder_def)
  have hx: "IsHtmxRequest (NewRequest ''GET'' ''/'' [(''HX-Request'', ''true'')])"
    by (simp add: IsHtmxRequest_def hx_header_set_def NewRequest_def Header_Get_def
        Header_Set_def HXRequest_def HXBoosted_def)
  have xhr: "\<not> IsHtmxRequest (NewRequest ''GET'' ''/'' [(''X-Requested-With'', ''XMLHttpRequest'')])
      \<and> IsXMLHttpRequest (NewRequest ''GET'' ''/'' [(''X-Requested-With'', ''XMLHttpRequest'')])"
    by (simp add: IsHtmxRequest_def IsXMLHttpRequest_def hx_header_set_def NewRequest_def
        Header_Get_def Header_Set_def HXRequest_def HXBoosted_def)
  have plain: "\<not> IsHtmxRequest (NewRequest ''GET'' ''/'' [])
      \<and> \<not> IsXMLHttpRequest (NewRequest ''GET'' ''/'' [])"
    by (simp add: IsHtmxRequest_def IsXMLHttpRequest_def hx_header_set_def NewRequest_def
        Header_Get_def HXRequest_def HXBoosted_def)
  have b: "body NewRecorder = []" by (simp add: NewRecorder_def)
  show ?thesis
    using C6_redirect_branching [OF fresh, of "NewRequest ''GET'' ''/'' [(''HX-Request'', ''true'')]"
        testLib "''https://example.com''"]
      C6_redirect_branching [OF fresh,
        of "NewRequest ''GET'' ''/'' [(''X-Requested-With'', ''XMLHttpRequest'')]"
        testLib "''https://example.com''"]
      C6_redirect_branching [OF fresh, of "NewRequest ''GET'' ''/'' []"
        testLib "''https://example.com''"]
      hx xhr plain
    by (simp add: b testLib_def HXRedirect_def)
qed

section \<open>Initialization of the template registry\<close>




section \<open>HTMX detection\<close>

text \<open>
  Claim C8. For every request, \<open>IsHtmxRequest\<close> holds exactly when the header
  \<^verbatim>\<open>HX-Request\<close> is set and the header \<^verbatim>\<open>HX-Boosted\<close> is not, and \<open>IsAnyHtmxRequest\<close>
  holds exactly when at least one of the two is set; the latter is the disjunction of
  \<open>IsHtmxRequest\<close> and \<open>IsBoostedRequest\<close>.
\<close>

theorem C8_htmx_predicates:
  "IsHtmxRequest r = (hx_header_set r HXRequest \<and> \<not> hx_header_set r HXBoosted)
   \<and> IsAnyHtmxRequest r = (hx_header_set r HXRequest \<or> hx_header_set r HXBoosted)
   \<and> IsAnyHtmxRequest r = (IsHtmxRequest r \<or> IsBoostedRequest r)"
  by (auto simp: IsHtmxRequest_def IsAnyHtmxRequest_def IsBoostedRequest_def)

text \<open>The rows of \<^verbatim>\<open>TestHXHeaders\<close> for the two predicates.\<close>

theorem C8_htmx_predicates_witness:
  "IsHtmxRequest (NewRequest ''GET'' ''http://example.com'' [(''HX-Request'', ''true'')])
   \<and> IsAnyHtmxRequest (NewRequest ''GET'' ''http://example.com''
         [(''HX-Request'', ''true''), (''HX-Boosted'', ''true'')])
   \<and> \<not> IsHtmxRequest (NewRequest ''GET'' ''http://example.com''
         [(''HX-Request'', ''true''), (''HX-Boosted'', ''true'')])
   \<and> \<not> IsHtmxRequest (NewRequest ''GET'' ''http://example.com'' [])
   \<and> \<not> IsAnyHtmxRequest (NewRequest ''GET'' ''http://example.com'' [])"
  using C8_htmx_predicates [of "NewRequest ''GET'' ''http://example.com'' [(''HX-Request'', ''true'')]"]
    C8_htmx_predicates [of "NewRequest ''GET'' ''http://example.com''
         [(''HX-Request'', ''true''), (''HX-Boosted'', ''true'')]"]
    C8_htmx_predicates [of "NewRequest ''GET'' ''http://example.com'' []"]
  by (simp add: hx_header_set_def NewRequest_def Header_Get_def Header_Set_def
      HXRequest_def HXBoosted_def)

section \<open>Registration of adapters\<close>

text \<open>
  Claim C9. \<open>RegisterAdapter\<close> puts the adapter into the registry under the name and
  returns what its \<open>Init\<close> returns. Also when that is an error, a lookup of the name gives
  the adapter; the other names are as before; the object has the state \<open>Init\<close> left.
\<close>

theorem C9_register_not_rolled_back:
  "Adapter (fst (snd (RegisterAdapter h s name p))) name = Some p
   \<and> snd (snd (RegisterAdapter h s name p)) = snd (Init (methods (h p)) (state (h p)))
   \<and> (\<forall>e. snd (Init (methods (h p)) (state (h p))) = Returns (Some e)
        \<longrightarrow> snd (snd (RegisterAdapter h s name p)) = Returns (Some e)
            \<and> Adapter (fst (snd (RegisterAdapter h s name p))) name = Some p)
   \<and> (\<forall>n. n \<noteq> name \<longrightarrow> Adapter (fst (snd (RegisterAdapter h s name p))) n = Adapter s n)
   \<and> state (fst (RegisterAdapter h s name p) p) = fst (Init (methods (h p)) (state (h p)))
   \<and> methods (fst (RegisterAdapter h s name p) p) = methods (h p)"
  by (simp add: RegisterAdapter_def Adapter_def Let_def split: prod.splits)

text \<open>
  Registering the adapter whose \<open>Init\<close> fails.
\<close>

theorem C9_register_not_rolled_back_witness:
  "snd (snd (RegisterAdapter testStore testView ''A1'' 3)) = Returns (Some (Errorf ''init failed''))
   \<and> Adapter (fst (snd (RegisterAdapter testStore testView ''A1'' 3))) ''A1'' = Some 3
   \<and> Adapter (fst (snd (RegisterAdapter testStore testView ''A1'' 3))) ''html'' = Some 1"
  using C9_register_not_rolled_back [of testStore testView "''A1''" 3]
  by (simp add: testStore_def failingAdapter_def testView_def Adapter_def)

section \<open>View data\<close>

text \<open>
  Claim C10. The map \<open>Data()\<close> returns always has the keys \<^verbatim>\<open>Error\<close> and \<^verbatim>\<open>Errors\<close>, and
  has \<^verbatim>\<open>View\<close> bound to the object itself; the object keeps that map. Values the caller
  supplied for \<^verbatim>\<open>Error\<close> and \<^verbatim>\<open>Errors\<close> are kept; an absent \<^verbatim>\<open>Error\<close> becomes the empty
  string and an absent \<^verbatim>\<open>Errors\<close> the empty map, also when the page data is a nil map,
  as in \<^verbatim>\<open>NewData(nil)\<close>.
\<close>

theorem C10_view_data_invariant:
  "(\<exists>e. snd (Data_Data self v) ''Error'' = Some e)
   \<and> (\<exists>es. snd (Data_Data self v) ''Errors'' = Some es)
   \<and> snd (Data_Data self v) ''View'' = Some (APointer self)
   \<and> viewPageData (fst (Data_Data self v)) = Some (snd (Data_Data self v))
   \<and> (\<forall>m x. viewPageData v = Some m \<and> m ''Error'' = Some x
          \<longrightarrow> snd (Data_Data self v) ''Error'' = Some x)
   \<and> (\<forall>m x. viewPageData v = Some m \<and> m ''Errors'' = Some x
          \<longrightarrow> snd (Data_Data self v) ''Errors'' = Some x)
   \<and> (viewPageData v = None \<or> (\<exists>m. viewPageData v = Some m \<and> m ''Error'' = None)
          \<longrightarrow> snd (Data_Data self v) ''Error'' = Some (AString []))
   \<and> (viewPageData v = None \<or> (\<exists>m. viewPageData v = Some m \<and> m ''Errors'' = None)
          \<longrightarrow> snd (Data_Data self v) ''Errors'' = Some (AStringMap Map.empty))
   \<and> viewPageData (NewData None :: 'v Data) = Some (initData None)
   \<and> (initData None :: string \<rightharpoonup> 'v any) ''Error'' = Some (AString [])
   \<and> (initData None :: string \<rightharpoonup> 'v any) ''Errors'' = Some (AStringMap Map.empty)"
  by (auto simp: Data_Data_def Let_def initData_Error initData_Errors NewData_def
      split: option.splits)

text \<open>
  A \<open>Data\<close> built from a nil map, and one built from a map with both keys.
\<close>

theorem C10_view_data_invariant_witness:
  "snd (Data_Data 7 (NewData None :: unit Data)) ''Error'' = Some (AString [])
   \<and> snd (Data_Data 7 (NewData None :: unit Data)) ''Errors'' = Some (AStringMap Map.empty)
   \<and> snd (Data_Data 7 (NewData None :: unit Data)) ''View'' = Some (APointer 7)
   \<and> snd (Data_Data 7 (NewData (Some [''Error'' \<mapsto> AString ''boom'',
            ''Errors'' \<mapsto> AStringMap [''name'' \<mapsto> ''required'']]) :: unit Data)) ''Error''
       = Some (AString ''boom'')
   \<and> snd (Data_Data 7 (NewData (Some [''Error'' \<mapsto> AString ''boom'',
            ''Errors'' \<mapsto> AStringMap [''name'' \<mapsto> ''required'']]) :: unit Data)) ''Errors''
       = Some (AStringMap [''name'' \<mapsto> ''required''])"
  using C10_view_data_invariant [of 7 "NewData None :: unit Data"]
    C10_view_data_invariant [of 7 "NewData (Some [''Error'' \<mapsto> AString ''boom'',
            ''Errors'' \<mapsto> AStringMap [''name'' \<mapsto> ''required'']]) :: unit Data"]
  by (simp add: NewData_def initData_def)

end
